theory Spec2Isabelle
  imports Main
begin


section \<open>Shared vocabulary\<close>

text \<open>
  Errors of the SFU are values with a numeric code and a textual reason, as the error
  catalogue of \<^verbatim>\<open>lib/base/errors.js\<close> has them. The catalogue itself is not among the
  sources, so the two named entries the code refers to are taken as fields of a parameter
  record.
\<close>

datatype sfu_error = SfuError (err_code: "nat option") (err_reason: string)

text \<open>
  A plain JavaScript exception (for instance the \<^verbatim>\<open>TypeError\<close> of a method call on
  \<^verbatim>\<open>null\<close>) is a thrown value without a code.
\<close>

definition TypeError :: sfu_error where
  "TypeError = SfuError None ''TypeError''"

record errors_catalogue =
  MEDIA_SERVER_OFFLINE :: sfu_error
  SFU_INVALID_REQUEST :: sfu_error

text \<open>
  JavaScript truthiness of a slot that holds either \<^verbatim>\<open>null\<close> or a string: \<^verbatim>\<open>null\<close> and the
  empty string are falsy.
\<close>

fun truthy :: "string option \<Rightarrow> bool" where
  "truthy None = False"
| "truthy (Some s) = (s \<noteq> [])"

section \<open>The client audio transceiver (lib/audio/client-static-transceiver.js)\<close>

subsection \<open>The world around an endpoint\<close>

text \<open>
  Calls made on the media control server (MCS) and on the softswitch bridge are recorded,
  in order, in one log. The calls return promises, so a call never throws into the caller
  synchronously; what a call resolves or rejects with is given by \<open>mcs_env\<close> below.
  The rejection of a call that is not awaited reaches no handler of the caller; such
  rejections are collected in \<open>unhandled_rejections\<close>.
\<close>

datatype mcs_event = MEDIA_STATE | MEDIA_STATE_ICE

datatype call =
    WaitForConnection
  | Join string string string
  | Publish "string option" string string
  | Consume "string option" "string option" string
  | Connect "string option" "string option list" string
  | OnEvent mcs_event string
  | AddIceCandidate "string option" string
  | Unpublish "string option" "string option"
  | BridgeStart "string option"
  | BridgeStop
  | BridgeFinalDetach

datatype frame =
    WebRTCAudioSuccess string string
  | WebRTCAudioError string nat
  | IceCandidateFrame string string
  | CloseFrame string

datatype timer_cb = NotFlowingTimeout | DisconnectedTimeout

record world =
  calls :: "call list"
  client_frames :: "frame list"
  timers :: "(nat \<times> timer_cb) list"
  next_timer :: nat
  offline_emitted :: nat
  unhandled_rejections :: "sfu_error list"

record transceiver =
  meetingId :: string
  voiceBridge :: string
  userId :: string
  connectionId :: string
  mediaServer :: string
  has_bridge :: bool
  bridgeMediaId :: "string option"
  mcsUserId :: "string option"
  mediaId :: "string option"
  mediaFlowingTimeout :: "nat option"
  mediaStateTimeout :: "nat option"
  candidatesQueue :: "string list"
  mcsDisconnectedRegistered :: nat
  endpoint_listeners :: nat

text \<open>
  The constructor: no MCS user, no media id, no timer, an empty candidate queue, a bridge
  object, and the endpoint's handler for \<^verbatim>\<open>MCS_DISCONNECTED\<close> registered once on the MCS
  handle. \<open>mcsDisconnectedRegistered\<close> counts the registrations of that handler;
  \<open>endpoint_listeners\<close> counts the listeners others have attached to the endpoint.
\<close>

definition ClientAudioStTransceiver ::
  "string \<Rightarrow> string \<Rightarrow> string \<Rightarrow> string \<Rightarrow> string \<Rightarrow> transceiver" where
  "ClientAudioStTransceiver meetingId' voiceBridge' userId' connectionId' mediaServer' =
     \<lparr>meetingId = meetingId', voiceBridge = voiceBridge', userId = userId',
       connectionId = connectionId', mediaServer = mediaServer', has_bridge = True,
       bridgeMediaId = None, mcsUserId = None, mediaId = None, mediaFlowingTimeout = None,
       mediaStateTimeout = None, candidatesQueue = [], mcsDisconnectedRegistered = 1,
       endpoint_listeners = 0\<rparr>"

text \<open>
  \<^verbatim>\<open>_getFullLogMetadata\<close> reads two properties of the bridge, so it throws a
  \<^verbatim>\<open>TypeError\<close> once \<^verbatim>\<open>stop\<close> has set the bridge to \<^verbatim>\<open>null\<close>. A log statement that takes
  its result as an argument throws with it, whatever the log level. A handler that throws
  ends there: the state stays as it was at the throw, and the exception goes to the
  caller of the handler (the event emitter, the timer).
\<close>

definition getFullLogMetadata_throws :: "transceiver \<Rightarrow> bool" where
  "getFullLogMetadata_throws t = (\<not> has_bridge t)"

subsection \<open>ICE handlers\<close>

text \<open>
  Modelled from the spec: \<^verbatim>\<open>flushCandidatesQueue(mcs, queue, mediaId)\<close> is a method of
  \<^verbatim>\<open>BaseProvider\<close> (lib/base/base-provider.js), which is not among the sources. The spec
  says the pending candidates are drained in FIFO order into \<^verbatim>\<open>mcs.addIceCandidate\<close>.
\<close>

definition flushCandidatesQueue :: "string list \<Rightarrow> string option \<Rightarrow> world \<Rightarrow> world" where
  "flushCandidatesQueue queue mid w =
     w\<lparr>calls := calls w @ map (AddIceCandidate mid) queue\<rparr>"

text \<open>
  \<^verbatim>\<open>_flushCandidatesQueue\<close>: the queue slot always holds an array (the constructor, this
  method and \<^verbatim>\<open>stop\<close> are the only writers), and an array is truthy, so the inner test
  always succeeds.
\<close>

definition priv_flushCandidatesQueue :: "transceiver \<times> world \<Rightarrow> transceiver \<times> world" where
  "priv_flushCandidatesQueue tw =
     (case tw of (t, w) \<Rightarrow>
        if truthy (mediaId t)
        then (t\<lparr>candidatesQueue := []\<rparr>, flushCandidatesQueue (candidatesQueue t) (mediaId t) w)
        else (t, w))"

definition onIceCandidate :: "string \<Rightarrow> transceiver \<times> world \<Rightarrow> transceiver \<times> world" where
  "onIceCandidate c tw =
     (case tw of (t, w) \<Rightarrow>
        if truthy (mediaId t)
        then (case priv_flushCandidatesQueue (t, w) of (t', w') \<Rightarrow>
                (t', w'\<lparr>calls := calls w' @ [AddIceCandidate (mediaId t') c]\<rparr>))
        else (t\<lparr>candidatesQueue := candidatesQueue t @ [c]\<rparr>, w))"


subsection \<open>Media timeout handlers\<close>

text \<open>
  The timers of the JavaScript runtime: \<open>setTimeout\<close> hands out a fresh handle and
  keeps the callback pending, \<open>clearTimeout\<close> drops the pending callback of a handle,
  and a pending timer that expires is removed and its callback runs. A handle is an
  object, hence truthy.
\<close>

definition setTimeout :: "timer_cb \<Rightarrow> world \<Rightarrow> nat \<times> world" where
  "setTimeout cb w =
     (next_timer w,
      w\<lparr>timers := timers w @ [(next_timer w, cb)], next_timer := Suc (next_timer w)\<rparr>)"

definition clearTimeout :: "nat \<Rightarrow> world \<Rightarrow> world" where
  "clearTimeout h w = w\<lparr>timers := filter (\<lambda>p. fst p \<noteq> h) (timers w)\<rparr>"

text \<open>
  Modelled from the spec: \<^verbatim>\<open>sendToClient\<close> of \<^verbatim>\<open>BaseProvider\<close> is not among the sources;
  it publishes one frame on the client-facing channel.
\<close>

definition sendToClient :: "frame \<Rightarrow> world \<Rightarrow> world" where
  "sendToClient f w = w\<lparr>client_frames := client_frames w @ [f]\<rparr>"

definition setMediaFlowingTimeout :: "transceiver \<times> world \<Rightarrow> transceiver \<times> world" where
  "setMediaFlowingTimeout tw =
     (case tw of (t, w) \<Rightarrow>
        (case mediaFlowingTimeout t of
           None \<Rightarrow>
             if getFullLogMetadata_throws t then (t, w)
             else (case setTimeout NotFlowingTimeout w of (h, w') \<Rightarrow>
                     (t\<lparr>mediaFlowingTimeout := Some h\<rparr>, w'))
         | Some h \<Rightarrow> (t, w)))"

definition clearMediaFlowingTimeout :: "transceiver \<times> world \<Rightarrow> transceiver \<times> world" where
  "clearMediaFlowingTimeout tw =
     (case tw of (t, w) \<Rightarrow>
        (case mediaFlowingTimeout t of
           Some h \<Rightarrow> (t\<lparr>mediaFlowingTimeout := None\<rparr>, clearTimeout h w)
         | None \<Rightarrow> (t, w)))"

definition setMediaStateTimeout :: "transceiver \<times> world \<Rightarrow> transceiver \<times> world" where
  "setMediaStateTimeout tw =
     (case tw of (t, w) \<Rightarrow>
        (case mediaStateTimeout t of
           None \<Rightarrow>
             if getFullLogMetadata_throws t then (t, w)
             else (case setTimeout DisconnectedTimeout w of (h, w') \<Rightarrow>
                     (t\<lparr>mediaStateTimeout := Some h\<rparr>, w'))
         | Some h \<Rightarrow> (t, w)))"

definition clearMediaStateTimeout :: "transceiver \<times> world \<Rightarrow> transceiver \<times> world" where
  "clearMediaStateTimeout tw =
     (case tw of (t, w) \<Rightarrow>
        (case mediaStateTimeout t of
           Some h \<Rightarrow> (t\<lparr>mediaStateTimeout := None\<rparr>, clearTimeout h w)
         | None \<Rightarrow> (t, w)))"

definition onSubscriberMediaFlowing :: "transceiver \<times> world \<Rightarrow> transceiver \<times> world" where
  "onSubscriberMediaFlowing tw =
     (if getFullLogMetadata_throws (fst tw) then tw
      else (case clearMediaFlowingTimeout tw of (t, w) \<Rightarrow>
              (t, sendToClient (WebRTCAudioSuccess (connectionId t) ''MEDIA_FLOWING'') w)))"

definition onSubscriberMediaNotFlowing :: "transceiver \<times> world \<Rightarrow> transceiver \<times> world" where
  "onSubscriberMediaNotFlowing tw =
     (if getFullLogMetadata_throws (fst tw) then tw else setMediaFlowingTimeout tw)"

definition onSubscriberMediaNotFlowingTimeout :: "transceiver \<times> world \<Rightarrow> transceiver \<times> world" where
  "onSubscriberMediaNotFlowingTimeout tw =
     (case tw of (t, w) \<Rightarrow>
        if getFullLogMetadata_throws t then (t, w)
        else (t, sendToClient (WebRTCAudioError (connectionId t) 2211) w))"

definition onSubscriberMediaConnected :: "transceiver \<times> world \<Rightarrow> transceiver \<times> world" where
  "onSubscriberMediaConnected tw =
     (if getFullLogMetadata_throws (fst tw) then tw else clearMediaStateTimeout tw)"

definition onSubscriberMediaDisconnected :: "transceiver \<times> world \<Rightarrow> transceiver \<times> world" where
  "onSubscriberMediaDisconnected tw =
     (if getFullLogMetadata_throws (fst tw) then tw else setMediaStateTimeout tw)"

definition onSubscriberMediaDisconnectedTimeout :: "transceiver \<times> world \<Rightarrow> transceiver \<times> world" where
  "onSubscriberMediaDisconnectedTimeout tw =
     (case tw of (t, w) \<Rightarrow>
        if getFullLogMetadata_throws t then (t, w)
        else (t, sendToClient (WebRTCAudioError (connectionId t) 2211) w))"

text \<open>
  Expiry of the pending timer with handle \<open>h\<close>: the runtime removes it and runs the
  callback that \<open>setMediaFlowingTimeout\<close> or \<open>setMediaStateTimeout\<close> registered. The
  callbacks leave the handle in its slot.
\<close>

definition timer_expires :: "nat \<Rightarrow> transceiver \<times> world \<Rightarrow> transceiver \<times> world" where
  "timer_expires h tw =
     (case tw of (t, w) \<Rightarrow>
        (case map_of (timers w) h of
           None \<Rightarrow> (t, w)
         | Some NotFlowingTimeout \<Rightarrow> onSubscriberMediaNotFlowingTimeout (t, clearTimeout h w)
         | Some DisconnectedTimeout \<Rightarrow> onSubscriberMediaDisconnectedTimeout (t, clearTimeout h w)))"

subsection \<open>Media state handlers\<close>

datatype event_name =
    MediaStateChanged
  | MediaFlowOutStateChange
  | MediaFlowInStateChange
  | MediaServerOffline
  | OtherEvent string

text \<open>
  An event of the MCS. \<open>ev_rawEvent\<close> is the \<^verbatim>\<open>source\<close> of the \<^verbatim>\<open>rawEvent\<close> in the
  event's state, or \<open>None\<close> when the state has no \<^verbatim>\<open>rawEvent\<close>.
\<close>

record media_event =
  ev_mediaId :: string
  ev_name :: event_name
  ev_details :: string
  ev_rawEvent :: "string option"
  ev_candidate :: string

definition onMCSIceCandidate :: "media_event \<Rightarrow> string \<Rightarrow> transceiver \<times> world \<Rightarrow> transceiver \<times> world" where
  "onMCSIceCandidate event targetMediaId tw =
     (case tw of (t, w) \<Rightarrow>
        if ev_mediaId event \<noteq> targetMediaId then (t, w)
        else (t, sendToClient (IceCandidateFrame (connectionId t) (ev_candidate event)) w))"

text \<open>
  \<^verbatim>\<open>_handleMediaStateChanged\<close> takes the \<^verbatim>\<open>source\<close> out of \<^verbatim>\<open>state.rawEvent\<close> first: for
  a state without \<^verbatim>\<open>rawEvent\<close> that is a \<^verbatim>\<open>TypeError\<close>, and the handler ends there.
\<close>

definition handleMediaStateChanged :: "media_event \<Rightarrow> transceiver \<times> world \<Rightarrow> transceiver \<times> world" where
  "handleMediaStateChanged state tw =
     (if ev_rawEvent state = None then tw
      else if ev_details state = ''CONNECTED'' then onSubscriberMediaConnected tw
      else if ev_details state = ''DISCONNECTED'' then onSubscriberMediaDisconnected tw
      else tw)"

fun mediaStateWebRTC_name :: "event_name \<Rightarrow> media_event \<Rightarrow> transceiver \<times> world \<Rightarrow> transceiver \<times> world" where
  "mediaStateWebRTC_name MediaStateChanged event tw = handleMediaStateChanged event tw"
| "mediaStateWebRTC_name MediaFlowOutStateChange event tw =
     (if ev_details event = ''FLOWING'' then onSubscriberMediaFlowing tw
      else onSubscriberMediaNotFlowing tw)"
| "mediaStateWebRTC_name MediaFlowInStateChange event tw =
     (if ev_details event = ''FLOWING'' then onSubscriberMediaFlowing tw
      else onSubscriberMediaNotFlowing tw)"
| "mediaStateWebRTC_name MediaServerOffline event tw =
     (case tw of (t, w) \<Rightarrow> (t, w\<lparr>offline_emitted := Suc (offline_emitted w)\<rparr>))"
| "mediaStateWebRTC_name (OtherEvent n) event tw = tw"

definition mediaStateWebRTC :: "media_event \<Rightarrow> string \<Rightarrow> transceiver \<times> world \<Rightarrow> transceiver \<times> world" where
  "mediaStateWebRTC event targetMediaId tw =
     (if getFullLogMetadata_throws (fst tw) then tw
      else if ev_mediaId event \<noteq> targetMediaId then tw
      else mediaStateWebRTC_name (ev_name event) event tw)"

subsection \<open>Start and stop\<close>

text \<open>
  What the calls of \<^verbatim>\<open>start\<close> end with. For the awaited calls \<open>Inl\<close> is a rejection;
  \<^verbatim>\<open>mcs.waitForConnection()\<close> resolves with a boolean. The two \<^verbatim>\<open>mcs.connect\<close> calls
  resolve (\<open>None\<close>) or reject. \<^verbatim>\<open>mcs.onEvent\<close> registers a handler at once and may
  throw doing so (\<open>Some\<close> error). \<open>flush_throws\<close> is the outcome of the helper
  \<^verbatim>\<open>flushCandidatesQueue\<close> in the flush that ends \<^verbatim>\<open>start\<close>: it returns (\<open>None\<close>), or it
  throws after it has forwarded the first \<open>k\<close> pending candidates. \<open>handleError\<close>
  stands for \<^verbatim>\<open>this._handleError(LOG_PREFIX, error, "sendrecv", ...)\<close> of \<^verbatim>\<open>BaseProvider\<close>,
  the error normaliser, which is not among the sources and is therefore a parameter. The
  bridge (\<^verbatim>\<open>FSTransceiverBridge\<close>) is not among the sources either: its \<^verbatim>\<open>start\<close> resolves
  after it has set its \<^verbatim>\<open>bridgeMediaId\<close>, or rejects.
\<close>

record mcs_env =
  waitForConnection_result :: bool
  join_result :: "sfu_error + string"
  publish_result :: "sfu_error + string"
  bridge_start_result :: "sfu_error + string"
  consume_result :: "sfu_error + string"
  connect_out_result :: "sfu_error option"
  connect_in_result :: "sfu_error option"
  onEvent_throws :: "mcs_event \<Rightarrow> sfu_error option"
  flush_throws :: "(nat \<times> sfu_error) option"
  handleError :: "sfu_error \<Rightarrow> sfu_error"

definition do_call :: "call \<Rightarrow> world \<Rightarrow> world" where
  "do_call c w = w\<lparr>calls := calls w @ [c]\<rparr>"

definition rejected :: "sfu_error option \<Rightarrow> sfu_error list" where
  "rejected outcome = (case outcome of None \<Rightarrow> [] | Some e \<Rightarrow> [e])"

text \<open>A call whose promise is not awaited: the caller goes on, whatever becomes of it.\<close>

definition call_not_awaited :: "call \<Rightarrow> sfu_error option \<Rightarrow> world \<Rightarrow> world" where
  "call_not_awaited c outcome w =
     (do_call c w)\<lparr>unhandled_rejections := unhandled_rejections w @ rejected outcome\<rparr>"

text \<open>
  \<^verbatim>\<open>_flushCandidatesQueue\<close> when its helper throws after \<open>k\<close> forwarded candidates: the
  queue is not reset, and the \<^verbatim>\<open>catch\<close> handler logs the error and returns. (The handler
  logs with \<^verbatim>\<open>_getFullLogMetadata\<close>; at the one place where this is used the endpoint has
  its bridge.)
\<close>

definition priv_flushCandidatesQueue_caught ::
  "nat \<Rightarrow> transceiver \<times> world \<Rightarrow> transceiver \<times> world" where
  "priv_flushCandidatesQueue_caught k tw =
     (case tw of (t, w) \<Rightarrow>
        if truthy (mediaId t)
        then (t, flushCandidatesQueue (take k (candidatesQueue t)) (mediaId t) w)
        else (t, w))"

text \<open>
  The \<^verbatim>\<open>catch\<close> handlers of \<^verbatim>\<open>start\<close> and \<^verbatim>\<open>_negotiateTransceiver\<close> log with
  \<^verbatim>\<open>_getFullLogMetadata\<close> before they throw the error they mean to throw.
\<close>

definition log_then_throw :: "transceiver \<Rightarrow> sfu_error \<Rightarrow> sfu_error" where
  "log_then_throw t e = (if getFullLogMetadata_throws t then TypeError else e)"

text \<open>
  \<^verbatim>\<open>_negotiateTransceiver\<close>. The first three steps sit in a \<^verbatim>\<open>try\<close> whose handler throws
  the normalised error; the two \<^verbatim>\<open>mcs.connect\<close> calls are in that \<^verbatim>\<open>try\<close> too, but they are
  not awaited. The two subscriptions come after the \<^verbatim>\<open>try\<close>: what they throw leaves the
  method as it is. The flush catches what its helper throws. Calling \<^verbatim>\<open>start\<close> on a bridge
  that is \<^verbatim>\<open>null\<close> is a \<^verbatim>\<open>TypeError\<close>.
\<close>

definition negotiateTransceiver ::
  "mcs_env \<Rightarrow> string \<Rightarrow> transceiver \<times> world \<Rightarrow> (sfu_error + string) \<times> transceiver \<times> world" where
  "negotiateTransceiver env sdpOffer tw =
     (case tw of (t, w) \<Rightarrow>
        let w1 = do_call (Publish (mcsUserId t) (voiceBridge t) sdpOffer) w in
        (case publish_result env of
           Inl e \<Rightarrow> (Inl (log_then_throw t (handleError env e)), t, w1)
         | Inr mid \<Rightarrow>
             let t1 = t\<lparr>mediaId := Some mid\<rparr> in
             if \<not> has_bridge t1
             then (Inl (log_then_throw t1 (handleError env TypeError)), t1, w1)
             else
               let w2 = do_call (BridgeStart (mediaId t1)) w1 in
               (case bridge_start_result env of
                  Inl e \<Rightarrow> (Inl (log_then_throw t1 (handleError env e)), t1, w2)
                | Inr bmid \<Rightarrow>
                    let t2 = t1\<lparr>bridgeMediaId := Some bmid\<rparr>;
                        w3 = do_call (Consume (bridgeMediaId t2) (mediaId t2) ''AUDIO'') w2 in
                    (case consume_result env of
                       Inl e \<Rightarrow> (Inl (log_then_throw t2 (handleError env e)), t2, w3)
                     | Inr answer \<Rightarrow>
                         let w4 = call_not_awaited
                                    (Connect (mediaId t2) [bridgeMediaId t2] ''AUDIO'')
                                    (connect_out_result env) w3;
                             w5 = call_not_awaited
                                    (Connect (bridgeMediaId t2) [mediaId t2] ''AUDIO'')
                                    (connect_in_result env) w4;
                             w6 = do_call (OnEvent MEDIA_STATE mid) w5 in
                         (case onEvent_throws env MEDIA_STATE of
                            Some e \<Rightarrow> (Inl e, t2, w6)
                          | None \<Rightarrow>
                              let w7 = do_call (OnEvent MEDIA_STATE_ICE mid) w6 in
                              (case onEvent_throws env MEDIA_STATE_ICE of
                                 Some e \<Rightarrow> (Inl e, t2, w7)
                               | None \<Rightarrow>
                                   (case (case flush_throws env of
                                            None \<Rightarrow> priv_flushCandidatesQueue (t2, w7)
                                          | Some (k, e) \<Rightarrow>
                                              priv_flushCandidatesQueue_caught k (t2, w7)) of
                                      (t3, w8) \<Rightarrow> (Inr answer, t3, w8))))))))"

definition start ::
  "errors_catalogue \<Rightarrow> mcs_env \<Rightarrow> string \<Rightarrow> transceiver \<times> world \<Rightarrow>
   (sfu_error + string) \<times> transceiver \<times> world" where
  "start errors env sdpOffer tw =
     (case tw of (t, w) \<Rightarrow>
        let w1 = do_call WaitForConnection w in
        if \<not> waitForConnection_result env
        then (Inl (handleError env (MEDIA_SERVER_OFFLINE errors)), t, w1)
        else
          let w2 = do_call (Join (voiceBridge t) ''SFU'' (userId t)) w1 in
          (case join_result env of
             Inl e \<Rightarrow> (Inl (log_then_throw t (handleError env e)), t, w2)
           | Inr uid \<Rightarrow>
               (case negotiateTransceiver env sdpOffer (t\<lparr>mcsUserId := Some uid\<rparr>, w2) of
                  (Inl e, t', w') \<Rightarrow> (Inl (log_then_throw t' (handleError env e)), t', w')
                | (Inr sdpAnswer, t', w') \<Rightarrow> (Inr sdpAnswer, t', w'))))"

text \<open>
  \<^verbatim>\<open>removeListener\<close> of an event emitter removes at most one registration of the
  given handler.
\<close>

definition untrackMCSEvents :: "transceiver \<Rightarrow> transceiver" where
  "untrackMCSEvents t = t\<lparr>mcsDisconnectedRegistered := mcsDisconnectedRegistered t - 1\<rparr>"

definition finalDetachEventListeners :: "transceiver \<times> world \<Rightarrow> transceiver \<times> world" where
  "finalDetachEventListeners tw =
     (case tw of (t, w) \<Rightarrow> ((untrackMCSEvents t)\<lparr>endpoint_listeners := 0\<rparr>, w))"

text \<open>
  \<^verbatim>\<open>stop\<close> is an asynchronous method with one suspension point, the awaited
  \<^verbatim>\<open>mcs.unpublish\<close>, which it reaches when the endpoint has a media id and an MCS user id.

  \<open>stop_bridge\<close> is its last part: the bridge, if there is one, is stopped and the slot
  set to \<^verbatim>\<open>null\<close>; the setter detaches the bridge's listeners first.

  \<open>stop_begin\<close> is \<^verbatim>\<open>stop\<close> up to where it first gives up control: the queue is emptied,
  both timeouts are cleared and the handler for \<^verbatim>\<open>MCS_DISCONNECTED\<close> is removed; then
  either \<^verbatim>\<open>mcs.unpublish\<close> is called and \<^verbatim>\<open>stop\<close> is suspended (\<open>True\<close>), or there is
  nothing to unpublish and \<^verbatim>\<open>stop\<close> runs to its end (\<open>False\<close>).

  \<open>stop_resume\<close> is \<^verbatim>\<open>stop\<close> from the moment \<^verbatim>\<open>mcs.unpublish\<close> has settled, on the state
  of that moment. A failing \<^verbatim>\<open>mcs.unpublish\<close> is caught and logged, so its outcome does
  not show in the state; but both the log statement after it and the one of the
  \<^verbatim>\<open>catch\<close> handler take \<^verbatim>\<open>_getFullLogMetadata\<close>, so on an endpoint without bridge
  \<^verbatim>\<open>stop\<close> rejects there (\<open>Some\<close> error).

  \<open>stop\<close> is a \<^verbatim>\<open>stop\<close> during whose suspension nothing else happens to the endpoint.
\<close>

definition stop_bridge :: "transceiver \<times> world \<Rightarrow> transceiver \<times> world" where
  "stop_bridge tw =
     (case tw of (t, w) \<Rightarrow>
        if has_bridge t
        then (t\<lparr>has_bridge := False\<rparr>, do_call BridgeFinalDetach (do_call BridgeStop w))
        else (t, w))"

definition stop_begin :: "transceiver \<times> world \<Rightarrow> bool \<times> transceiver \<times> world" where
  "stop_begin tw =
     (case tw of (t, w) \<Rightarrow>
        (case clearMediaFlowingTimeout (t\<lparr>candidatesQueue := []\<rparr>, w) of tw1 \<Rightarrow>
        (case clearMediaStateTimeout tw1 of (t2, w2) \<Rightarrow>
           let t3 = untrackMCSEvents t2 in
           if truthy (mediaId t3) \<and> truthy (mcsUserId t3)
           then (True, t3, do_call (Unpublish (mcsUserId t3) (mediaId t3)) w2)
           else (False, stop_bridge (t3, w2)))))"

definition stop_resume :: "transceiver \<times> world \<Rightarrow> sfu_error option \<times> transceiver \<times> world" where
  "stop_resume tw =
     (if getFullLogMetadata_throws (fst tw) then (Some TypeError, tw)
      else (None, stop_bridge tw))"

definition stop :: "transceiver \<times> world \<Rightarrow> sfu_error option \<times> transceiver \<times> world" where
  "stop tw =
     (case stop_begin tw of
        (True, tw') \<Rightarrow> stop_resume tw'
      | (False, tw') \<Rightarrow> (None, tw'))"

subsection \<open>An endpoint driven by its environment\<close>

text \<open>
  What can happen to an endpoint after its construction: the session calls one of its
  methods, the MCS delivers an event to one of the two handlers that
  \<^verbatim>\<open>_negotiateTransceiver\<close> subscribed, or a pending timer expires. A \<^verbatim>\<open>stop\<close> is either one
  step (\<open>OpStop\<close>), or two with other steps in between: it begins and is suspended at
  \<^verbatim>\<open>mcs.unpublish\<close> (\<open>OpStopBegin\<close>), and later goes on (\<open>OpStopResume\<close>).
\<close>

datatype endpoint_op =
    OpStart errors_catalogue mcs_env string
  | OpIceCandidate string
  | OpMediaState media_event string
  | OpMcsIceCandidate media_event string
  | OpTimerExpires nat
  | OpStop
  | OpStopBegin
  | OpStopResume

fun endpoint_step :: "endpoint_op \<Rightarrow> transceiver \<times> world \<Rightarrow> transceiver \<times> world" where
  "endpoint_step (OpStart errors env sdpOffer) tw = snd (start errors env sdpOffer tw)"
| "endpoint_step (OpIceCandidate c) tw = onIceCandidate c tw"
| "endpoint_step (OpMediaState event target) tw = mediaStateWebRTC event target tw"
| "endpoint_step (OpMcsIceCandidate event target) tw = onMCSIceCandidate event target tw"
| "endpoint_step (OpTimerExpires h) tw = timer_expires h tw"
| "endpoint_step OpStop tw = snd (stop tw)"
| "endpoint_step OpStopBegin tw = snd (stop_begin tw)"
| "endpoint_step OpStopResume tw = snd (stop_resume tw)"

definition endpoint_run :: "endpoint_op list \<Rightarrow> transceiver \<times> world \<Rightarrow> transceiver \<times> world" where
  "endpoint_run ops tw = foldl (\<lambda>s op. endpoint_step op s) tw ops"

definition pending :: "timer_cb \<Rightarrow> world \<Rightarrow> nat" where
  "pending cb w = length (filter (\<lambda>p. snd p = cb) (timers w))"

section \<open>The audio session (AudioSession)\<close>

text \<open>
  A session owns at most one endpoint: a transceiver, or a consumer
  (\<^verbatim>\<open>ClientAudioConsumer\<close>). The consumer class is not among the sources; its state is a
  type parameter and the two of its methods that \<^verbatim>\<open>stop\<close> reaches are parameters. A
  rejected \<^verbatim>\<open>stop\<close> of the consumer is \<open>Some\<close> error.
\<close>

datatype 'c endpoint = TransceiverEndpoint transceiver | ConsumerEndpoint 'c

record 'c consumer_ops =
  consumer_finalDetachEventListeners :: "'c \<times> world \<Rightarrow> 'c \<times> world"
  consumer_stop :: "'c \<times> world \<Rightarrow> sfu_error option \<times> 'c \<times> world"

text \<open>
  \<open>userLeftRegistered\<close> and \<open>session_mcsDisconnectedRegistered\<close> count the
  registrations of the session's two bound handlers, \<^verbatim>\<open>disconnectUser\<close> on the bus gateway
  and \<^verbatim>\<open>handleMCSCoreDisconnection\<close> on the MCS handle. Only the session holds these
  handlers, so only the session changes the counts.
\<close>

record 'c audio_session =
  session_id :: string
  session_userId :: string
  session_connectionId :: string
  session_role :: string
  clientEndpoint :: "'c endpoint option"
  userLeftRegistered :: nat
  session_mcsDisconnectedRegistered :: nat


definition endpoint_finalDetachEventListeners ::
  "'c consumer_ops \<Rightarrow> 'c endpoint \<times> world \<Rightarrow> 'c endpoint \<times> world" where
  "endpoint_finalDetachEventListeners ops ew =
     (case ew of
        (TransceiverEndpoint t, w) \<Rightarrow>
          (case finalDetachEventListeners (t, w) of (t', w') \<Rightarrow> (TransceiverEndpoint t', w'))
      | (ConsumerEndpoint c, w) \<Rightarrow>
          (case consumer_finalDetachEventListeners ops (c, w) of
             (c', w') \<Rightarrow> (ConsumerEndpoint c', w')))"

definition endpoint_stop ::
  "'c consumer_ops \<Rightarrow> 'c endpoint \<times> world \<Rightarrow> sfu_error option \<times> 'c endpoint \<times> world" where
  "endpoint_stop ops ew =
     (case ew of
        (TransceiverEndpoint t, w) \<Rightarrow>
          (case stop (t, w) of (r, t', w') \<Rightarrow> (r, TransceiverEndpoint t', w'))
      | (ConsumerEndpoint c, w) \<Rightarrow>
          (case consumer_stop ops (c, w) of (r, c', w') \<Rightarrow> (r, ConsumerEndpoint c', w')))"

definition clearClientEndpointEvents ::
  "'c consumer_ops \<Rightarrow> 'c audio_session \<times> world \<Rightarrow> 'c audio_session \<times> world" where
  "clearClientEndpointEvents ops sw =
     (case sw of (s, w) \<Rightarrow>
        (case clientEndpoint s of
           None \<Rightarrow> (s, w)
         | Some ep \<Rightarrow>
             (case endpoint_finalDetachEventListeners ops (ep, w) of
                (ep', w') \<Rightarrow> (s\<lparr>clientEndpoint := Some ep'\<rparr>, w'))))"

text \<open>The setter of \<^verbatim>\<open>clientEndpoint\<close>.\<close>

definition set_clientEndpoint ::
  "'c consumer_ops \<Rightarrow> 'c endpoint option \<Rightarrow> 'c audio_session \<times> world \<Rightarrow> 'c audio_session \<times> world" where
  "set_clientEndpoint ops endpoint sw =
     (case (if endpoint = None \<and> clientEndpoint (fst sw) \<noteq> None
            then clearClientEndpointEvents ops sw else sw) of
        (s, w) \<Rightarrow> (s\<lparr>clientEndpoint := endpoint\<rparr>, w))"

definition untrackMeetingEvents :: "'c audio_session \<Rightarrow> 'c audio_session" where
  "untrackMeetingEvents s = s\<lparr>userLeftRegistered := userLeftRegistered s - 1\<rparr>"

definition session_untrackMCSEvents :: "'c audio_session \<Rightarrow> 'c audio_session" where
  "session_untrackMCSEvents s =
     s\<lparr>session_mcsDisconnectedRegistered := session_mcsDisconnectedRegistered s - 1\<rparr>"

text \<open>
  \<^verbatim>\<open>AudioSession.stop\<close>. The test \<^verbatim>\<open>typeof this.clientEndpoint.stop\<close> yields a non-empty
  string, which is truthy, so the branch is taken whenever an endpoint is present. When
  the awaited endpoint \<^verbatim>\<open>stop\<close> rejects, the method rejects before the slot is cleared.
\<close>

definition AudioSession_stop ::
  "'c consumer_ops \<Rightarrow> 'c audio_session \<times> world \<Rightarrow> sfu_error option \<times> 'c audio_session \<times> world" where
  "AudioSession_stop ops sw =
     (case clearClientEndpointEvents ops sw of (s1, w1) \<Rightarrow>
        let s2 = session_untrackMCSEvents (untrackMeetingEvents s1) in
        (case clientEndpoint s2 of
           None \<Rightarrow> (None, set_clientEndpoint ops None (s2, w1))
         | Some ep \<Rightarrow>
             (case endpoint_stop ops (ep, w1) of
                (Some e, ep', w3) \<Rightarrow> (Some e, s2\<lparr>clientEndpoint := Some ep'\<rparr>, w3)
              | (None, ep', w3) \<Rightarrow>
                  (None, set_clientEndpoint ops None (s2\<lparr>clientEndpoint := Some ep'\<rparr>, w3)))))"

text \<open>
  The invariant of the two watchdogs: at most one timer of each is pending, and a pending
  timer is the one whose handle its slot holds.
\<close>

definition watchdog_inv :: "transceiver \<times> world \<Rightarrow> bool" where
  "watchdog_inv tw =
     (case tw of (t, w) \<Rightarrow>
        pending NotFlowingTimeout w \<le> 1 \<and> pending DisconnectedTimeout w \<le> 1
        \<and> (\<forall>h. (h, NotFlowingTimeout) \<in> set (timers w) \<longrightarrow> mediaFlowingTimeout t = Some h)
        \<and> (\<forall>h. (h, DisconnectedTimeout) \<in> set (timers w) \<longrightarrow> mediaStateTimeout t = Some h))"


section \<open>The video manager (lib/video/VideoManager.js)\<close>

subsection \<open>Messages, sessions and the manager's state\<close>

text \<open>
  An inbound message. A field the client left out is \<^verbatim>\<open>undefined\<close> in the source and
  prints as such in the session id; here every field is a string.
\<close>

record message =
  msg_id :: string
  msg_connectionId :: string
  msg_userId :: string
  msg_meetingId :: string
  msg_voiceBridge :: string
  msg_role :: string
  msg_cameraId :: string
  msg_sdpOffer :: string
  msg_candidate :: string
  msg_answer :: string

datatype media_status = MEDIA_STARTING | MEDIA_STARTED | MEDIA_STOPPING | MEDIA_STOPPED

text \<open>
  Modelled from the spec: the class \<^verbatim>\<open>Video\<close> (lib/video/video.js) is not among the sources.
  A session record carries its identity and a status, one of the four above.
\<close>

record video =
  video_id :: string
  video_connectionId :: string
  video_meetingId :: string
  video_cameraId :: string
  video_role :: string
  video_userId :: string
  video_voiceBridge :: string
  status :: media_status

text \<open>
  Modelled from the spec: the constructor of \<^verbatim>\<open>Video\<close>, with the arguments \<^verbatim>\<open>handleStart\<close>
  passes; a session that has no endpoint yet is in \<open>MEDIA_STARTING\<close>. The gateway and
  MCS handles, the \<^verbatim>\<open>record\<close> flag and the media server name are arguments too; the
  manager does nothing with them afterwards, and they are left out, as are the media
  specs that \<^verbatim>\<open>handleStart\<close> computes and only passes on to \<^verbatim>\<open>start\<close>.
\<close>

definition Video :: "string \<Rightarrow> string \<Rightarrow> string \<Rightarrow> string \<Rightarrow> string \<Rightarrow> string \<Rightarrow> string \<Rightarrow> video" where
  "Video meetingId' cameraId role connectionId' voiceBridge' userId' sessionId =
     \<lparr>video_id = sessionId, video_connectionId = connectionId', video_meetingId = meetingId',
       video_cameraId = cameraId, video_role = role, video_userId = userId',
       video_voiceBridge = voiceBridge', status = MEDIA_STARTING\<rparr>"

text \<open>A value as \<^verbatim>\<open>isVideoInstanceReady\<close> may receive it.\<close>

datatype js_value = Undefined | Null | OtherValue | VideoInstance video

record error_message =
  em_connectionId :: string
  em_streamId :: string
  em_role :: string
  em_code :: "nat option"
  em_reason :: string

datatype video_frame =
    StartResponse string string string string
  | ErrorFrame error_message

text \<open>
  What the manager does to its sessions and to the outside, in order: the methods of
  \<^verbatim>\<open>Video\<close> it calls and the listener it attaches.
\<close>

datatype session_call =
    VideoStop string
  | VideoNew string
  | VideoStart string string
  | VideoOnIceCandidate string string
  | VideoProcessAnswer string string
  | TrackMediaServerOffline string

datatype task =
    StartTask message
  | SubscriberAnswerTask message
  | StopTask message
  | CloseSessionTask string

text \<open>
  What happens on the lifecycle queues, in order: a task is pushed on the queue of a key,
  a task begins to run, a running task completes (\<open>True\<close>: its promise resolved,
  \<open>False\<close>: it rejected).
\<close>

datatype lifecycle_event =
    Enqueued string task
  | Began string task
  | Ended string task bool

record lifecycle_queue =
  active :: "task option"
  waiting :: "task list"

text \<open>
  The state of a manager. The session table is a JavaScript \<^verbatim>\<open>Map\<close>: a list of entries in
  insertion order. The metric \<open>errors_total\<close> is the list of the labels it was
  incremented with, so the counter of a label is the number of its occurrences.
  \<open>sources\<close> is the process-wide source table of \<^verbatim>\<open>Video\<close>.
\<close>

record manager =
  sessions :: "(string \<times> video) list"
  iceQueues :: "(string \<times> string list) list"
  lifecycleQueues :: "(string \<times> lifecycle_queue) list"
  lifecycle_trace :: "lifecycle_event list"
  sent :: "video_frame list"
  errors_total :: "(string \<times> nat option) list"
  reqs_total :: nat
  session_calls :: "session_call list"
  sources :: "(string \<times> string) list"

text \<open>
  The outside of a manager: the two permission queries of \<^verbatim>\<open>video-perm-utils.js\<close>, which
  reject with an error to deny (\<open>Some\<close> error) and resolve otherwise, and the methods
  \<^verbatim>\<open>start\<close> and \<^verbatim>\<open>stop\<close> of \<^verbatim>\<open>Video\<close>, which resolve or reject and may change the session.
  None of them is among the sources, so all are parameters.
\<close>

record video_env =
  getCamBroadcastPermission :: "string \<Rightarrow> string \<Rightarrow> string \<Rightarrow> string \<Rightarrow> sfu_error option"
  getCamSubscribePermission :: "string \<Rightarrow> string \<Rightarrow> string \<Rightarrow> string \<Rightarrow> sfu_error option"
  Video_start :: "video \<Rightarrow> string \<Rightarrow> (sfu_error + string) \<times> video"
  Video_stop :: "video \<Rightarrow> sfu_error option \<times> video"
  Video_processAnswer :: "video \<Rightarrow> string \<Rightarrow> sfu_error option"
  explodeUserInfoHeader :: "message \<Rightarrow> message option"
  WS_STRICT_HEADER_PARSING :: bool

subsection \<open>The base manager\<close>

text \<open>\<^verbatim>\<open>Map.set\<close> and \<^verbatim>\<open>Map.delete\<close> on a list of entries.\<close>

fun table_set :: "'k \<Rightarrow> 'v \<Rightarrow> ('k \<times> 'v) list \<Rightarrow> ('k \<times> 'v) list" where
  "table_set k v [] = [(k, v)]"
| "table_set k v (p # ps) = (if fst p = k then (k, v) # ps else p # table_set k v ps)"

definition table_delete :: "'k \<Rightarrow> ('k \<times> 'v) list \<Rightarrow> ('k \<times> 'v) list" where
  "table_delete k ps = filter (\<lambda>p. fst p \<noteq> k) ps"

text \<open>
  Modelled from the spec: \<^verbatim>\<open>BaseManager\<close> (lib/base/base-manager.js) is not among the
  sources. Its session table has \<^verbatim>\<open>getSession\<close> and \<^verbatim>\<open>storeSession\<close>; \<^verbatim>\<open>_stopSession\<close> stops
  the session stored under the key, if any, and the session is gone from the table when
  the stop has completed, with success or with failure; \<^verbatim>\<open>_fetchIceQueue\<close> creates the
  pending-ICE queue of a key on first use, \<^verbatim>\<open>_deleteIceQueue\<close> deletes it, and
  \<^verbatim>\<open>_flushIceQueue\<close> hands the pending candidates to the session in FIFO order;
  \<^verbatim>\<open>_handleError\<close> turns an error into the message for the client, with the code and the
  reason of the error; \<^verbatim>\<open>sendToClient\<close> publishes one frame.
\<close>

definition getSession :: "string \<Rightarrow> manager \<Rightarrow> video option" where
  "getSession sessionId m = map_of (sessions m) sessionId"

definition storeSession :: "string \<Rightarrow> video \<Rightarrow> manager \<Rightarrow> manager" where
  "storeSession sessionId v m = m\<lparr>sessions := table_set sessionId v (sessions m)\<rparr>"

definition session_call :: "session_call \<Rightarrow> manager \<Rightarrow> manager" where
  "session_call c m = m\<lparr>session_calls := session_calls m @ [c]\<rparr>"

definition stopSession :: "video_env \<Rightarrow> string \<Rightarrow> manager \<Rightarrow> sfu_error option \<times> manager" where
  "stopSession env sessionId m =
     (case getSession sessionId m of
        None \<Rightarrow> (None, m)
      | Some v \<Rightarrow>
          (fst (Video_stop env v),
           (session_call (VideoStop sessionId) m)
             \<lparr>sessions := table_delete sessionId (sessions m)\<rparr>))"

definition fetchIceQueue :: "string \<Rightarrow> manager \<Rightarrow> string list \<times> manager" where
  "fetchIceQueue sessionId m =
     (case map_of (iceQueues m) sessionId of
        Some q \<Rightarrow> (q, m)
      | None \<Rightarrow> ([], m\<lparr>iceQueues := table_set sessionId [] (iceQueues m)\<rparr>))"

definition deleteIceQueue :: "string \<Rightarrow> manager \<Rightarrow> manager" where
  "deleteIceQueue sessionId m = m\<lparr>iceQueues := table_delete sessionId (iceQueues m)\<rparr>"

definition flushIceQueue :: "string \<Rightarrow> string list \<Rightarrow> manager \<Rightarrow> manager" where
  "flushIceQueue sessionId queue m =
     m\<lparr>session_calls := session_calls m @ map (VideoOnIceCandidate sessionId) queue\<rparr>"

definition manager_handleError :: "string \<Rightarrow> string \<Rightarrow> string \<Rightarrow> sfu_error \<Rightarrow> error_message" where
  "manager_handleError connectionId' streamId role error =
     \<lparr>em_connectionId = connectionId', em_streamId = streamId, em_role = role,
       em_code = err_code error, em_reason = err_reason error\<rparr>"

definition manager_sendToClient :: "video_frame \<Rightarrow> manager \<Rightarrow> manager" where
  "manager_sendToClient f m = m\<lparr>sent := sent m @ [f]\<rparr>"

text \<open>\<^verbatim>\<open>PrometheusAgent.increment(SFUV_NAMES.ERRORS, {method, errorCode})\<close>.\<close>

definition increment_errors :: "string \<Rightarrow> nat option \<Rightarrow> manager \<Rightarrow> manager" where
  "increment_errors method errorCode m =
     m\<lparr>errors_total := errors_total m @ [(method, errorCode)]\<rparr>"

text \<open>
  A session is an object: when one of its methods changes it, the entry of the table that
  holds it shows the change. The table itself is not touched.
\<close>

definition mutate_session :: "string \<Rightarrow> video \<Rightarrow> manager \<Rightarrow> manager" where
  "mutate_session sessionId v m =
     m\<lparr>sessions := map (\<lambda>p. if fst p = sessionId then (fst p, v) else p) (sessions m)\<rparr>"

subsection \<open>The manager's own methods\<close>

definition getCameraId :: "message \<Rightarrow> string" where
  "getCameraId message = msg_cameraId message"

definition getSessionId :: "message \<Rightarrow> string" where
  "getSessionId message =
     msg_userId message @ ''-'' @ getCameraId message @ ''-'' @ msg_role message"

text \<open>
  \<^verbatim>\<open>isVideoInstanceReady\<close>, with the source's test of the status: a disjunction of two
  inequalities.
\<close>

fun isVideoInstanceReady :: "js_value \<Rightarrow> bool" where
  "isVideoInstanceReady (VideoInstance v) =
     (status v \<noteq> MEDIA_STOPPED \<or> status v \<noteq> MEDIA_STOPPING)"
| "isVideoInstanceReady Undefined = False"
| "isVideoInstanceReady Null = False"
| "isVideoInstanceReady OtherValue = False"

definition getPermission :: "errors_catalogue \<Rightarrow> video_env \<Rightarrow> message \<Rightarrow> sfu_error option" where
  "getPermission errors env request =
     (if msg_role request = ''share''
      then getCamBroadcastPermission env (msg_meetingId request) (msg_userId request)
             (msg_cameraId request) (msg_connectionId request)
      else if msg_role request = ''viewer''
      then getCamSubscribePermission env (msg_meetingId request) (msg_userId request)
             (msg_cameraId request) (msg_connectionId request)
      else Some (SFU_INVALID_REQUEST errors))"

text \<open>
  \<^verbatim>\<open>_closeSession\<close>: whether \<^verbatim>\<open>_stopSession\<close> resolves or rejects, the pending-ICE queue of
  the key is deleted and the promise resolves.
\<close>

definition closeSession :: "video_env \<Rightarrow> string \<Rightarrow> manager \<Rightarrow> manager" where
  "closeSession env sessionId m = deleteIceQueue sessionId (snd (stopSession env sessionId m))"

text \<open>The handler of the \<^verbatim>\<open>catch\<close> in \<^verbatim>\<open>handleStart\<close>.\<close>

definition handleStart_catch :: "message \<Rightarrow> sfu_error \<Rightarrow> manager \<Rightarrow> manager" where
  "handleStart_catch request error m =
     (let errorMessage = manager_handleError (msg_connectionId request) (msg_cameraId request)
                           (msg_role request) error
      in manager_sendToClient (ErrorFrame errorMessage)
           (increment_errors (msg_id request) (em_code errorMessage) m))"

text \<open>
  \<^verbatim>\<open>handleStart\<close> up to the three points where it is suspended after the permission was
  granted: the stale session closed, the new session stored, and the end.
\<close>

definition handleStart_closed :: "video_env \<Rightarrow> message \<Rightarrow> manager \<Rightarrow> string list \<times> manager" where
  "handleStart_closed env request m =
     (let sessionId = getSessionId request;
          video = getSession sessionId m
      in case fetchIceQueue sessionId m of
           (iceQueue, m1) \<Rightarrow>
             (iceQueue, if video \<noteq> None then closeSession env sessionId m1 else m1))"

definition new_video :: "message \<Rightarrow> video" where
  "new_video request =
     Video (msg_meetingId request) (msg_cameraId request) (msg_role request)
       (msg_connectionId request) (msg_voiceBridge request) (msg_userId request)
       (getSessionId request)"

definition handleStart_stored :: "video_env \<Rightarrow> message \<Rightarrow> manager \<Rightarrow> string list \<times> manager" where
  "handleStart_stored env request m =
     (case handleStart_closed env request m of
        (iceQueue, m2) \<Rightarrow>
          (iceQueue,
           storeSession (getSessionId request) (new_video request)
             (session_call (VideoNew (getSessionId request)) m2)))"

definition handleStart :: "errors_catalogue \<Rightarrow> video_env \<Rightarrow> message \<Rightarrow> manager \<Rightarrow> manager" where
  "handleStart errors env request m =
     (let sessionId = getSessionId request in
      case getPermission errors env request of
        Some error \<Rightarrow> handleStart_catch request error m
      | None \<Rightarrow>
          (case handleStart_stored env request m of
             (iceQueue, m3) \<Rightarrow>
               (case Video_start env (new_video request) (msg_sdpOffer request) of
                  (result, video') \<Rightarrow>
                    let m4 = mutate_session sessionId video'
                               (session_call (VideoStart sessionId (msg_sdpOffer request)) m3)
                    in (case result of
                          Inl error \<Rightarrow> handleStart_catch request error m4
                        | Inr sdpAnswer \<Rightarrow>
                            manager_sendToClient
                              (StartResponse (msg_connectionId request) (msg_role request)
                                 (msg_cameraId request) sdpAnswer)
                              (session_call (TrackMediaServerOffline sessionId)
                                 (flushIceQueue sessionId iceQueue m4))))))"

definition handleStop :: "video_env \<Rightarrow> message \<Rightarrow> manager \<Rightarrow> manager" where
  "handleStop env message m = closeSession env (getSessionId message) m"

definition to_js_value :: "video option \<Rightarrow> js_value" where
  "to_js_value v = (case v of None \<Rightarrow> Undefined | Some x \<Rightarrow> VideoInstance x)"

definition handleIceCandidate :: "message \<Rightarrow> manager \<Rightarrow> manager" where
  "handleIceCandidate message m =
     (let sessionId = getSessionId message;
          video = getSession sessionId m
      in case fetchIceQueue sessionId m of
           (iceQueue, m1) \<Rightarrow>
             if isVideoInstanceReady (to_js_value video)
             then session_call (VideoOnIceCandidate sessionId (msg_candidate message)) m1
             else m1\<lparr>iceQueues :=
                      table_set sessionId (iceQueue @ [msg_candidate message]) (iceQueues m1)\<rparr>)"

text \<open>
  \<^verbatim>\<open>handleSubscriberAnswer\<close>: a rejected \<^verbatim>\<open>processAnswer\<close> is logged and counted; nothing
  is sent to the client.
\<close>

definition handleSubscriberAnswer :: "video_env \<Rightarrow> message \<Rightarrow> manager \<Rightarrow> manager" where
  "handleSubscriberAnswer env message m =
     (let sessionId = getSessionId message in
      case getSession sessionId m of
        None \<Rightarrow> m
      | Some v \<Rightarrow>
          (let m1 = session_call (VideoProcessAnswer sessionId (msg_answer message)) m in
           case Video_processAnswer env v (msg_answer message) of
             None \<Rightarrow> m1
           | Some error \<Rightarrow>
               increment_errors (msg_id message)
                 (em_code (manager_handleError (video_connectionId v) (video_id v)
                             (video_role v) error)) m1))"

definition handleInvalidRequest :: "errors_catalogue \<Rightarrow> message \<Rightarrow> manager \<Rightarrow> manager" where
  "handleInvalidRequest errors message m =
     (let errorMessage = manager_handleError (msg_connectionId message) (msg_cameraId message)
                           (msg_role message) (SFU_INVALID_REQUEST errors)
      in increment_errors (if msg_id message = [] then ''event'' else msg_id message)
           (em_code errorMessage) (manager_sendToClient (ErrorFrame errorMessage) m))"

subsection \<open>External webcam sources\<close>

record cam_payload =
  stream :: string
  cam_userId :: string

text \<open>
  Modelled from the spec: \<^verbatim>\<open>Video.setSource\<close> is a static method of the class \<^verbatim>\<open>Video\<close>,
  which is not among the sources; it registers a source under a key of the process-wide
  source table.
\<close>

definition Video_setSource :: "string \<Rightarrow> string \<Rightarrow> manager \<Rightarrow> manager" where
  "Video_setSource key source m = m\<lparr>sources := table_set key source (sources m)\<rparr>"

text \<open>
  \<^verbatim>\<open>userId.match(/^v_*/ig)\<close>: the regular expression is anchored at the start and asks
  for the letter v, in either case, followed by any number of underscores. The result is
  the matched text, or \<open>None\<close> for \<^verbatim>\<open>null\<close>.
\<close>

fun match_v_underscores :: "string \<Rightarrow> string option" where
  "match_v_underscores [] = None"
| "match_v_underscores (c # cs) =
     (if c = CHR ''v'' \<or> c = CHR ''V''
      then Some (c # takeWhile (\<lambda>x. x = CHR ''_'') cs) else None)"

text \<open>
  \<^verbatim>\<open>stream.replace(/\|SIP/ig, '')\<close>: every occurrence of the four characters, the letters
  in either case, is removed, scanning from the left.
\<close>

fun replace_SIP :: "string \<Rightarrow> string" where
  "replace_SIP (a # b # c # d # rest) =
     (if a = CHR ''|'' \<and> (b = CHR ''S'' \<or> b = CHR ''s'') \<and> (c = CHR ''I'' \<or> c = CHR ''i'')
         \<and> (d = CHR ''P'' \<or> d = CHR ''p'')
      then replace_SIP rest else a # replace_SIP (b # c # d # rest))"
| "replace_SIP s = s"

text \<open>The listener that \<^verbatim>\<open>_trackExternalWebcamSources\<close> registers.\<close>

definition trackExternalWebcamSources :: "cam_payload \<Rightarrow> manager \<Rightarrow> manager" where
  "trackExternalWebcamSources payload m =
     (if match_v_underscores (cam_userId payload) \<noteq> None
      then let normalizedStreamName = replace_SIP (stream payload)
           in Video_setSource (cam_userId payload) normalizedStreamName
                (Video_setSource (stream payload) normalizedStreamName m)
      else m)"

text \<open>
  The same listener as the specification words it: the table is updated exactly when the
  user id begins with \<open>v_\<close>, and the name registered is the stream name without its
  \<open>|SIP\<close> suffix, if it has one.
\<close>

definition spec_reserved_prefix :: "string \<Rightarrow> bool" where
  "spec_reserved_prefix u = (take 2 u = ''v_'')"

definition spec_strip_SIP_suffix :: "string \<Rightarrow> string" where
  "spec_strip_SIP_suffix s =
     (if 4 \<le> length s \<and> drop (length s - 4) s = ''|SIP'' then take (length s - 4) s else s)"

definition spec_trackExternalWebcamSources :: "cam_payload \<Rightarrow> manager \<Rightarrow> manager" where
  "spec_trackExternalWebcamSources payload m =
     (if spec_reserved_prefix (cam_userId payload)
      then Video_setSource (cam_userId payload) (spec_strip_SIP_suffix (stream payload))
             (Video_setSource (stream payload) (spec_strip_SIP_suffix (stream payload)) m)
      else m)"

subsection \<open>The lifecycle queues and the inbound router\<close>

text \<open>
  Modelled from the spec: \<^verbatim>\<open>_fetchLifecycleQueue\<close> of \<^verbatim>\<open>BaseManager\<close> and the queue it
  returns are not among the sources. The spec has one FIFO per session key, created when
  the first task is pushed and kept until it is drained; a queue runs one task at a time,
  and the next task starts only after the completion of the previous one, with success or
  with failure.
\<close>

definition fetchLifecycleQueue :: "string \<Rightarrow> manager \<Rightarrow> lifecycle_queue \<times> manager" where
  "fetchLifecycleQueue sessionId m =
     (case map_of (lifecycleQueues m) sessionId of
        Some q \<Rightarrow> (q, m)
      | None \<Rightarrow>
          (\<lparr>active = None, waiting = []\<rparr>,
           m\<lparr>lifecycleQueues :=
               table_set sessionId \<lparr>active = None, waiting = []\<rparr> (lifecycleQueues m)\<rparr>))"

text \<open>
  The queue of a key moves on: nothing happens while a task runs; an idle queue starts
  its oldest waiting task; an idle queue with nothing waiting is drained and deleted.
\<close>

definition lifecycle_next :: "string \<Rightarrow> manager \<Rightarrow> manager" where
  "lifecycle_next sessionId m =
     (case map_of (lifecycleQueues m) sessionId of
        None \<Rightarrow> m
      | Some q \<Rightarrow>
          (case active q of
             Some running \<Rightarrow> m
           | None \<Rightarrow>
               (case waiting q of
                  [] \<Rightarrow> m\<lparr>lifecycleQueues := table_delete sessionId (lifecycleQueues m)\<rparr>
                | t # ts \<Rightarrow>
                    m\<lparr>lifecycleQueues :=
                        table_set sessionId \<lparr>active = Some t, waiting = ts\<rparr> (lifecycleQueues m),
                      lifecycle_trace := lifecycle_trace m @ [Began sessionId t]\<rparr>)))"

text \<open>\<^verbatim>\<open>queue.push(task)\<close> on the queue fetched for a key.\<close>

definition lifecycle_push :: "string \<Rightarrow> task \<Rightarrow> manager \<Rightarrow> manager" where
  "lifecycle_push sessionId t m =
     (case fetchLifecycleQueue sessionId m of
        (q, m1) \<Rightarrow>
          lifecycle_next sessionId
            (m1\<lparr>lifecycleQueues :=
                  table_set sessionId (q\<lparr>waiting := waiting q @ [t]\<rparr>) (lifecycleQueues m1),
                lifecycle_trace := lifecycle_trace m1 @ [Enqueued sessionId t]\<rparr>))"

text \<open>The running task of a key completes, and its queue moves on.\<close>

definition lifecycle_done :: "string \<Rightarrow> bool \<Rightarrow> manager \<Rightarrow> manager" where
  "lifecycle_done sessionId ok m =
     (case map_of (lifecycleQueues m) sessionId of
        None \<Rightarrow> m
      | Some q \<Rightarrow>
          (case active q of
             None \<Rightarrow> m
           | Some t \<Rightarrow>
               lifecycle_next sessionId
                 (m\<lparr>lifecycleQueues :=
                      table_set sessionId (q\<lparr>active := None\<rparr>) (lifecycleQueues m),
                    lifecycle_trace := lifecycle_trace m @ [Ended sessionId t ok]\<rparr>)))"

text \<open>
  \<^verbatim>\<open>_killConnectionSessions\<close>: every session of the connection gets a task that closes it,
  on the queue of its key.
\<close>

definition killConnectionSessions :: "string \<Rightarrow> manager \<Rightarrow> manager" where
  "killConnectionSessions connectionId' m =
     foldl (\<lambda>m' p. if video_connectionId (snd p) = connectionId'
                     then lifecycle_push (fst p) (CloseSessionTask (fst p)) m' else m')
       m (sessions m)"

definition handleClose :: "message \<Rightarrow> manager \<Rightarrow> manager" where
  "handleClose message m = killConnectionSessions (msg_connectionId message) m"

text \<open>The \<^verbatim>\<open>switch\<close> of \<^verbatim>\<open>_onMessage\<close>.\<close>

definition dispatch :: "errors_catalogue \<Rightarrow> message \<Rightarrow> manager \<Rightarrow> manager" where
  "dispatch errors message m =
     (if msg_id message = ''start''
      then lifecycle_push (getSessionId message) (StartTask message) m
      else if msg_id message = ''subscriberAnswer''
      then lifecycle_push (getSessionId message) (SubscriberAnswerTask message) m
      else if msg_id message = ''stop''
      then lifecycle_push (getSessionId message) (StopTask message) m
      else if msg_id message = ''onIceCandidate'' then handleIceCandidate message m
      else if msg_id message = ''close'' then handleClose message m
      else if msg_id message = ''error'' then m
      else handleInvalidRequest errors message m)"

text \<open>
  \<^verbatim>\<open>_onMessage\<close>. \<^verbatim>\<open>explodeUserInfoHeader\<close> of \<^verbatim>\<open>BaseManager\<close> fills fields of the message
  from its user-info header, or throws (\<open>None\<close>); when it throws and strict parsing is
  off, the message goes on as it is.
\<close>

definition onMessage :: "errors_catalogue \<Rightarrow> video_env \<Rightarrow> message \<Rightarrow> manager \<Rightarrow> manager" where
  "onMessage errors env message m =
     (let m1 = m\<lparr>reqs_total := Suc (reqs_total m)\<rparr> in
      case explodeUserInfoHeader env message of
        None \<Rightarrow>
          if WS_STRICT_HEADER_PARSING env then handleInvalidRequest errors message m1
          else dispatch errors message m1
      | Some message' \<Rightarrow> dispatch errors message' m1)"

text \<open>What a task does when it runs.\<close>

fun run_task :: "errors_catalogue \<Rightarrow> video_env \<Rightarrow> task \<Rightarrow> manager \<Rightarrow> manager" where
  "run_task errors env (StartTask message) m = handleStart errors env message m"
| "run_task errors env (SubscriberAnswerTask message) m = handleSubscriberAnswer env message m"
| "run_task errors env (StopTask message) m = handleStop env message m"
| "run_task errors env (CloseSessionTask sessionId) m = closeSession env sessionId m"

text \<open>
  The manager in its event loop. A message arrives; or the task that runs for a key
  completes, resolved or rejected. The effects of a task on the manager are those of its
  handler; they are applied in one piece when the task completes, which is enough for
  the order of the tasks, the subject here.
\<close>

datatype manager_event = Inbound message | TaskSettles string bool

definition task_settles :: "errors_catalogue \<Rightarrow> video_env \<Rightarrow> string \<Rightarrow> bool \<Rightarrow> manager \<Rightarrow> manager" where
  "task_settles errors env sessionId ok m =
     (case map_of (lifecycleQueues m) sessionId of
        None \<Rightarrow> m
      | Some q \<Rightarrow>
          (case active q of
             None \<Rightarrow> m
           | Some t \<Rightarrow> lifecycle_done sessionId ok (run_task errors env t m)))"

fun manager_step :: "errors_catalogue \<Rightarrow> video_env \<Rightarrow> manager \<Rightarrow> manager_event \<Rightarrow> manager" where
  "manager_step errors env m (Inbound message) = onMessage errors env message m"
| "manager_step errors env m (TaskSettles sessionId ok) = task_settles errors env sessionId ok m"

definition manager_run :: "errors_catalogue \<Rightarrow> video_env \<Rightarrow> manager_event list \<Rightarrow> manager \<Rightarrow> manager" where
  "manager_run errors env events m = foldl (manager_step errors env) m events"

text \<open>
  Reading a trace for one key. \<open>serial_step\<close> follows the task that runs for the key:
  \<open>Some None\<close> when none runs, \<open>Some (Some t)\<close> while \<open>t\<close> runs, and \<open>None\<close> once a
  task began while another ran, or a task ended that was not the running one.
\<close>

fun serial_step :: "string \<Rightarrow> task option option \<Rightarrow> lifecycle_event \<Rightarrow> task option option" where
  "serial_step k None e = None"
| "serial_step k (Some cur) (Enqueued k' t) = Some cur"
| "serial_step k (Some cur) (Began k' t) =
     (if k' \<noteq> k then Some cur else if cur = None then Some (Some t) else None)"
| "serial_step k (Some cur) (Ended k' t ok) =
     (if k' \<noteq> k then Some cur else if cur = Some t then Some None else None)"

definition non_overlapping :: "string \<Rightarrow> lifecycle_event list \<Rightarrow> bool" where
  "non_overlapping k tr = (foldl (serial_step k) (Some None) tr \<noteq> None)"

fun enqueued_task :: "string \<Rightarrow> lifecycle_event \<Rightarrow> task option" where
  "enqueued_task k (Enqueued k' t) = (if k' = k then Some t else None)"
| "enqueued_task k (Began k' t) = None"
| "enqueued_task k (Ended k' t ok) = None"

fun began_task :: "string \<Rightarrow> lifecycle_event \<Rightarrow> task option" where
  "began_task k (Began k' t) = (if k' = k then Some t else None)"
| "began_task k (Enqueued k' t) = None"
| "began_task k (Ended k' t ok) = None"

definition enqueued_tasks :: "string \<Rightarrow> lifecycle_event list \<Rightarrow> task list" where
  "enqueued_tasks k tr = List.map_filter (enqueued_task k) tr"

definition began_tasks :: "string \<Rightarrow> lifecycle_event list \<Rightarrow> task list" where
  "began_tasks k tr = List.map_filter (began_task k) tr"

text \<open>
  What ties the trace to the queue of a key: the trace, read for the key, ends with the
  active task of the queue as the running one; and the tasks enqueued for the key are
  those that began, in the same order, followed by those that wait.
\<close>

definition queue_state :: "string \<Rightarrow> manager \<Rightarrow> task option \<times> task list" where
  "queue_state k m =
     (case map_of (lifecycleQueues m) k of
        None \<Rightarrow> (None, [])
      | Some q \<Rightarrow> (active q, waiting q))"

definition lifecycle_inv :: "string \<Rightarrow> manager \<Rightarrow> bool" where
  "lifecycle_inv k m =
     (foldl (serial_step k) (Some None) (lifecycle_trace m) = Some (fst (queue_state k m))
      \<and> enqueued_tasks k (lifecycle_trace m) =
          began_tasks k (lifecycle_trace m) @ snd (queue_state k m))"

section \<open>Concrete inputs\<close>

text \<open>
  A freshly constructed transceiver in an empty world, the answers of a media server on
  which every call succeeds, and the same endpoint once its media id is known.
\<close>

definition world0 :: world where
  "world0 = \<lparr>calls = [], client_frames = [], timers = [], next_timer = 0,
      offline_emitted = 0, unhandled_rejections = []\<rparr>"

definition transceiver0 :: "transceiver \<times> world" where
  "transceiver0 = (ClientAudioStTransceiver ''m1'' ''72013'' ''u1'' ''conn1'' ''mediasoup'', world0)"

definition errors0 :: errors_catalogue where
  "errors0 = \<lparr>MEDIA_SERVER_OFFLINE = SfuError (Some 2001) ''MEDIA_SERVER_OFFLINE'',
      SFU_INVALID_REQUEST = SfuError (Some 2203) ''SFU_INVALID_REQUEST''\<rparr>"

text \<open>
  An error normaliser: an error with a code is left as it is, any other becomes the
  generic error.
\<close>

definition generic_error :: sfu_error where
  "generic_error = SfuError (Some 2200) ''MEDIA_GENERIC_ERROR''"

definition normalise0 :: "sfu_error \<Rightarrow> sfu_error" where
  "normalise0 e = (case err_code e of None \<Rightarrow> generic_error | Some c \<Rightarrow> e)"


definition env_ok :: mcs_env where
  "env_ok = \<lparr>waitForConnection_result = True, join_result = Inr ''mcs-u1'',
      publish_result = Inr ''media1'', bridge_start_result = Inr ''bridge1'',
      consume_result = Inr ''answer'', connect_out_result = None, connect_in_result = None,
      onEvent_throws = (\<lambda>_. None), flush_throws = None, handleError = normalise0\<rparr>"










definition transceiver1 :: "transceiver \<times> world" where
  "transceiver1 = (case transceiver0 of (t, w) \<Rightarrow> (t\<lparr>mediaId := Some ''media1''\<rparr>, w))"

definition flowing_event :: media_event where
  "flowing_event = \<lparr>ev_mediaId = ''media1'', ev_name = MediaFlowInStateChange,
      ev_details = ''FLOWING'', ev_rawEvent = Some ''element1'', ev_candidate = []\<rparr>"

definition not_flowing_event :: media_event where
  "not_flowing_event = flowing_event\<lparr>ev_details := ''NOT_FLOWING''\<rparr>"

definition connected_event :: media_event where
  "connected_event = \<lparr>ev_mediaId = ''media1'', ev_name = MediaStateChanged,
      ev_details = ''CONNECTED'', ev_rawEvent = Some ''element1'', ev_candidate = []\<rparr>"

definition disconnected_event :: media_event where
  "disconnected_event = connected_event\<lparr>ev_details := ''DISCONNECTED''\<rparr>"

text \<open>
  The endpoint after two \<open>NOT_FLOWING\<close> events and one \<open>DISCONNECTED\<close> event for
  its media.
\<close>

definition transceiver_watched :: "transceiver \<times> world" where
  "transceiver_watched =
     endpoint_run [OpMediaState not_flowing_event ''media1'',
                   OpMediaState not_flowing_event ''media1'',
                   OpMediaState disconnected_event ''media1''] transceiver1"

text \<open>
  A started transceiver, and a \<^verbatim>\<open>sendrecv\<close> session that owns it. The consumer endpoint
  plays no part in it; its two methods are instantiated with ones that do nothing.
\<close>

definition transceiver2 :: "transceiver \<times> world" where
  "transceiver2 = snd (start errors0 env_ok ''offer'' transceiver0)"

text \<open>
  The started transceiver after a \<^verbatim>\<open>stop\<close> during whose wait for \<^verbatim>\<open>mcs.unpublish\<close>
  the MCS reported \<open>NOT_FLOWING\<close> for the endpoint's media.
\<close>

definition transceiver_stop_raced :: "transceiver \<times> world" where
  "transceiver_stop_raced =
     endpoint_run [OpStopBegin, OpMediaState not_flowing_event ''media1'', OpStopResume]
       transceiver2"



text \<open>
  An empty manager, a \<open>start\<close> request of a publisher, and three outsides: one that
  grants and succeeds, one whose broadcast query is denied, one whose session fails to
  start. \<open>manager1\<close> is the manager after a first successful start.
\<close>

definition manager0 :: manager where
  "manager0 = \<lparr>sessions = [], iceQueues = [], lifecycleQueues = [], lifecycle_trace = [],
      sent = [], errors_total = [], reqs_total = 0, session_calls = [], sources = []\<rparr>"

definition request0 :: message where
  "request0 = \<lparr>msg_id = ''start'', msg_connectionId = ''conn1'', msg_userId = ''u1'',
      msg_meetingId = ''m'', msg_voiceBridge = ''vb'', msg_role = ''share'',
      msg_cameraId = ''c1'', msg_sdpOffer = ''O'', msg_candidate = [], msg_answer = []\<rparr>"

definition venv_ok :: video_env where
  "venv_ok = \<lparr>getCamBroadcastPermission = (\<lambda>_ _ _ _. None),
      getCamSubscribePermission = (\<lambda>_ _ _ _. None),
      Video_start = (\<lambda>v offer. (Inr ''A'', v\<lparr>status := MEDIA_STARTED\<rparr>)),
      Video_stop = (\<lambda>v. (None, v\<lparr>status := MEDIA_STOPPED\<rparr>)),
      Video_processAnswer = (\<lambda>_ _. None),
      explodeUserInfoHeader = Some, WS_STRICT_HEADER_PARSING = False\<rparr>"

definition venv_deny :: video_env where
  "venv_deny = venv_ok\<lparr>getCamBroadcastPermission :=
      (\<lambda>_ _ _ _. Some (SfuError (Some 403) ''PERMISSION_DENIED'')),
    getCamSubscribePermission :=
      (\<lambda>_ _ _ _. Some (SfuError (Some 404) ''SUBSCRIBE_DENIED''))\<rparr>"

definition venv_start_fails :: video_env where
  "venv_start_fails = venv_ok\<lparr>Video_start :=
      (\<lambda>v offer. (Inl (SfuError (Some 2200) ''NEGOTIATION_FAILED''), v))\<rparr>"

definition manager1 :: manager where
  "manager1 = handleStart errors0 venv_ok request0 manager0"

text \<open>
  A manager whose only session is being stopped, and an ICE candidate for that session.
\<close>

definition manager_stopping :: manager where
  "manager_stopping =
     manager0\<lparr>sessions := [(''u1-c1-share'', (new_video request0)\<lparr>status := MEDIA_STOPPING\<rparr>)]\<rparr>"

definition ice_message :: message where
  "ice_message = request0\<lparr>msg_id := ''onIceCandidate'', msg_candidate := ''C1''\<rparr>"

definition stop_message :: message where
  "stop_message = request0\<lparr>msg_id := ''stop''\<rparr>"

definition answer_message :: message where
  "answer_message = request0\<lparr>msg_id := ''subscriberAnswer'', msg_answer := ''A2''\<rparr>"

text \<open>The manager after a \<open>start\<close> and a \<open>stop\<close> message for the same key arrived.\<close>

definition manager_queued :: manager where
  "manager_queued =
     manager_run errors0 venv_ok [Inbound request0, Inbound stop_message] manager0"

section \<open>ICE candidates of an endpoint\<close>




section \<open>Start of a transceiver\<close>

lemmas start_defs = start_def negotiateTransceiver_def priv_flushCandidatesQueue_def
  priv_flushCandidatesQueue_caught_def flushCandidatesQueue_def do_call_def
  call_not_awaited_def log_then_throw_def getFullLogMetadata_throws_def Let_def















section \<open>The watchdogs\<close>

lemma pending_zero_iff: "pending cb w = 0 \<longleftrightarrow> (\<forall>h. (h, cb) \<notin> set (timers w))"
  by (auto simp: pending_def filter_empty_conv)

lemma length_filter_conj_le:
  "length (filter (\<lambda>x. P x \<and> Q x) xs) \<le> length (filter Q xs)"
  by (induction xs) auto

lemma pending_clearTimeout_le: "pending cb (clearTimeout h w) \<le> pending cb w"
  by (simp add: pending_def clearTimeout_def length_filter_conj_le)

lemma timers_clearTimeout: "set (timers (clearTimeout h w)) = {p \<in> set (timers w). fst p \<noteq> h}"
  by (auto simp: clearTimeout_def)

lemma inv_timers_cong:
  "watchdog_inv (t, w) \<Longrightarrow> timers w' = timers w \<Longrightarrow>
   mediaFlowingTimeout t' = mediaFlowingTimeout t \<Longrightarrow> mediaStateTimeout t' = mediaStateTimeout t \<Longrightarrow>
   watchdog_inv (t', w')"
  by (simp add: watchdog_inv_def pending_def)

lemma inv_setFlow: "watchdog_inv tw \<Longrightarrow> watchdog_inv (setMediaFlowingTimeout tw)"
  by (cases tw)
     (auto simp: watchdog_inv_def setMediaFlowingTimeout_def setTimeout_def pending_def
        getFullLogMetadata_throws_def filter_empty_conv split: option.splits)

lemma inv_setState: "watchdog_inv tw \<Longrightarrow> watchdog_inv (setMediaStateTimeout tw)"
  by (cases tw)
     (auto simp: watchdog_inv_def setMediaStateTimeout_def setTimeout_def pending_def
        getFullLogMetadata_throws_def filter_empty_conv split: option.splits)

lemma inv_clearTimeout:
  assumes "watchdog_inv (t, w)"
  shows "pending NotFlowingTimeout (clearTimeout h w) \<le> 1"
    and "pending DisconnectedTimeout (clearTimeout h w) \<le> 1"
  using assms pending_clearTimeout_le[of NotFlowingTimeout h w]
    pending_clearTimeout_le[of DisconnectedTimeout h w]
  by (auto simp: watchdog_inv_def)

lemma inv_clearFlow: "watchdog_inv tw \<Longrightarrow> watchdog_inv (clearMediaFlowingTimeout tw)"
proof (cases tw)
  case (Pair t w)
  assume inv: "watchdog_inv tw"
  show ?thesis
  proof (cases "mediaFlowingTimeout t")
    case None
    with Pair inv show ?thesis by (simp add: clearMediaFlowingTimeout_def)
  next
    case (Some h)
    from inv Pair have i: "watchdog_inv (t, w)" by simp
    have "watchdog_inv (t\<lparr>mediaFlowingTimeout := None\<rparr>, clearTimeout h w)"
      unfolding watchdog_inv_def using inv_clearTimeout[OF i, of h] i Some
      by (auto simp: timers_clearTimeout watchdog_inv_def)
    with Pair Some show ?thesis by (simp add: clearMediaFlowingTimeout_def)
  qed
qed

lemma inv_clearState: "watchdog_inv tw \<Longrightarrow> watchdog_inv (clearMediaStateTimeout tw)"
proof (cases tw)
  case (Pair t w)
  assume inv: "watchdog_inv tw"
  show ?thesis
  proof (cases "mediaStateTimeout t")
    case None
    with Pair inv show ?thesis by (simp add: clearMediaStateTimeout_def)
  next
    case (Some h)
    from inv Pair have i: "watchdog_inv (t, w)" by simp
    have "watchdog_inv (t\<lparr>mediaStateTimeout := None\<rparr>, clearTimeout h w)"
      unfolding watchdog_inv_def using inv_clearTimeout[OF i, of h] i Some
      by (auto simp: timers_clearTimeout watchdog_inv_def)
    with Pair Some show ?thesis by (simp add: clearMediaStateTimeout_def)
  qed
qed

lemma inv_sendToClient: "watchdog_inv (t, w) \<Longrightarrow> watchdog_inv (t, sendToClient f w)"
  by (erule inv_timers_cong) (simp_all add: sendToClient_def)

lemma inv_onIceCandidate: "watchdog_inv tw \<Longrightarrow> watchdog_inv (onIceCandidate c tw)"
  by (cases tw)
     (auto simp: onIceCandidate_def priv_flushCandidatesQueue_def flushCandidatesQueue_def
           elim!: inv_timers_cong)

lemma start_keeps_watchdogs:
  "start errors env offer (t, w) = (r, t', w') \<Longrightarrow>
     timers w' = timers w \<and> mediaFlowingTimeout t' = mediaFlowingTimeout t
     \<and> mediaStateTimeout t' = mediaStateTimeout t"
  by (auto simp: start_def negotiateTransceiver_def priv_flushCandidatesQueue_def
        priv_flushCandidatesQueue_caught_def flushCandidatesQueue_def do_call_def
        call_not_awaited_def Let_def
        split: sum.splits if_splits prod.splits option.splits)

lemma inv_start: "watchdog_inv tw \<Longrightarrow> watchdog_inv (snd (start errors env offer tw))"
proof (cases tw)
  case (Pair t w)
  assume inv: "watchdog_inv tw"
  obtain r t' w' where s: "start errors env offer (t, w) = (r, t', w')"
    by (cases "start errors env offer (t, w)")
  from start_keeps_watchdogs[OF s] inv Pair have "watchdog_inv (t', w')"
    by (auto elim!: inv_timers_cong)
  with s Pair show ?thesis by simp
qed

lemma inv_flowing: "watchdog_inv tw \<Longrightarrow> watchdog_inv (onSubscriberMediaFlowing tw)"
  using inv_clearFlow[of tw]
  by (cases "clearMediaFlowingTimeout tw") (simp add: onSubscriberMediaFlowing_def inv_sendToClient)

lemma inv_mediaStateWebRTC: "watchdog_inv tw \<Longrightarrow> watchdog_inv (mediaStateWebRTC event target tw)"
proof -
  assume inv: "watchdog_inv tw"
  have offline: "watchdog_inv (case tw of (t, w) \<Rightarrow> (t, w\<lparr>offline_emitted := Suc (offline_emitted w)\<rparr>))"
    using inv by (cases tw) (auto elim!: inv_timers_cong)
  show ?thesis
    using inv inv_flowing[OF inv] offline
    by (cases "ev_name event")
       (simp_all add: mediaStateWebRTC_def handleMediaStateChanged_def
          onSubscriberMediaNotFlowing_def onSubscriberMediaConnected_def
          onSubscriberMediaDisconnected_def inv_setFlow inv_setState inv_clearState)
qed

lemma inv_onMCSIceCandidate: "watchdog_inv tw \<Longrightarrow> watchdog_inv (onMCSIceCandidate event target tw)"
  by (cases tw) (simp add: onMCSIceCandidate_def inv_sendToClient)

lemma inv_clearTimeout_same: "watchdog_inv (t, w) \<Longrightarrow> watchdog_inv (t, clearTimeout h w)"
  using pending_clearTimeout_le[of NotFlowingTimeout h w]
    pending_clearTimeout_le[of DisconnectedTimeout h w]
  by (auto simp: watchdog_inv_def timers_clearTimeout)

lemma inv_timer_expires: "watchdog_inv tw \<Longrightarrow> watchdog_inv (timer_expires h tw)"
  by (cases tw)
     (auto simp: timer_expires_def onSubscriberMediaNotFlowingTimeout_def
           onSubscriberMediaDisconnectedTimeout_def
           intro!: inv_sendToClient inv_clearTimeout_same split: option.splits timer_cb.splits)

lemma clearFlow_cleared:
  "watchdog_inv tw \<Longrightarrow>
     mediaFlowingTimeout (fst (clearMediaFlowingTimeout tw)) = None
     \<and> pending NotFlowingTimeout (snd (clearMediaFlowingTimeout tw)) = 0"
  by (cases tw)
     (auto simp: clearMediaFlowingTimeout_def watchdog_inv_def pending_zero_iff timers_clearTimeout
           split: option.splits)

lemma clearState_cleared:
  "watchdog_inv tw \<Longrightarrow>
     mediaStateTimeout (fst (clearMediaStateTimeout tw)) = None
     \<and> pending DisconnectedTimeout (snd (clearMediaStateTimeout tw)) = 0"
  by (cases tw)
     (auto simp: clearMediaStateTimeout_def watchdog_inv_def pending_zero_iff timers_clearTimeout
           split: option.splits)

lemma clearState_keeps_flow:
  "mediaFlowingTimeout (fst (clearMediaStateTimeout tw)) = mediaFlowingTimeout (fst tw)
   \<and> pending cb (snd (clearMediaStateTimeout tw)) \<le> pending cb (snd tw)"
  by (cases tw) (auto simp: clearMediaStateTimeout_def pending_clearTimeout_le split: option.splits)

lemma no_pending_no_timers:
  "pending NotFlowingTimeout w = 0 \<Longrightarrow> pending DisconnectedTimeout w = 0 \<Longrightarrow> timers w = []"
proof (rule ccontr)
  assume a: "pending NotFlowingTimeout w = 0" "pending DisconnectedTimeout w = 0"
    and "timers w \<noteq> []"
  then obtain h cb where "(h, cb) \<in> set (timers w)"
    by (cases "timers w") auto
  with a show False
    by (cases cb) (auto simp: pending_zero_iff)
qed

lemma inv_stop_bridge: "watchdog_inv tw \<Longrightarrow> watchdog_inv (stop_bridge tw)"
  by (cases tw) (auto simp: stop_bridge_def do_call_def elim!: inv_timers_cong)

text \<open>
  The synchronous part of \<open>stop\<close> clears both watchdogs: when \<open>stop\<close> gives up control,
  or ends without having done so, both slots are empty and no timer is pending.
\<close>

lemma stop_begin_clears:
  assumes "watchdog_inv tw"
  shows "mediaFlowingTimeout (fst (snd (stop_begin tw))) = None
         \<and> mediaStateTimeout (fst (snd (stop_begin tw))) = None
         \<and> timers (snd (snd (stop_begin tw))) = []"
proof -
  obtain t w where tw: "tw = (t, w)" by (cases tw)
  define tw1 where "tw1 = clearMediaFlowingTimeout (t\<lparr>candidatesQueue := []\<rparr>, w)"
  define tw2 where "tw2 = clearMediaStateTimeout tw1"
  have i0: "watchdog_inv (t\<lparr>candidatesQueue := []\<rparr>, w)"
    using assms tw by (auto elim!: inv_timers_cong)
  have c1: "mediaFlowingTimeout (fst tw1) = None" "pending NotFlowingTimeout (snd tw1) = 0"
    using clearFlow_cleared[OF i0] by (simp_all add: tw1_def)
  have i1: "watchdog_inv tw1"
    unfolding tw1_def by (rule inv_clearFlow[OF i0])
  have c2: "mediaStateTimeout (fst tw2) = None" "pending DisconnectedTimeout (snd tw2) = 0"
    using clearState_cleared[OF i1] by (simp_all add: tw2_def)
  have c3: "mediaFlowingTimeout (fst tw2) = None" "pending NotFlowingTimeout (snd tw2) = 0"
    using clearState_keeps_flow[of tw1 NotFlowingTimeout] c1 by (simp_all add: tw2_def)
  have nil: "timers (snd tw2) = []"
    using c2 c3 by (simp add: no_pending_no_timers)
  obtain t2 w2 where tw2: "tw2 = (t2, w2)" by (cases tw2)
  have "stop_begin tw =
          (let t3 = untrackMCSEvents t2 in
           if truthy (mediaId t3) \<and> truthy (mcsUserId t3)
           then (True, t3, do_call (Unpublish (mcsUserId t3) (mediaId t3)) w2)
           else (False, stop_bridge (t3, w2)))"
    using tw2 by (simp add: tw stop_begin_def tw1_def tw2_def)
  then show ?thesis
    using c2 c3 nil tw2
    by (simp add: Let_def untrackMCSEvents_def do_call_def stop_bridge_def)
qed

lemma inv_stop_begin: "watchdog_inv tw \<Longrightarrow> watchdog_inv (snd (stop_begin tw))"
  using stop_begin_clears[of tw]
  by (cases "snd (stop_begin tw)") (simp add: watchdog_inv_def pending_def)

lemma inv_stop_resume: "watchdog_inv tw \<Longrightarrow> watchdog_inv (snd (stop_resume tw))"
  by (simp add: stop_resume_def inv_stop_bridge)

lemma inv_stop: "watchdog_inv tw \<Longrightarrow> watchdog_inv (snd (stop tw))"
  using inv_stop_begin[of tw] inv_stop_resume[of "snd (stop_begin tw)"]
  by (cases "stop_begin tw") (auto simp: stop_def split: bool.splits)

lemma inv_step: "watchdog_inv tw \<Longrightarrow> watchdog_inv (endpoint_step op tw)"
  by (cases op)
     (simp_all add: inv_start inv_onIceCandidate inv_mediaStateWebRTC inv_onMCSIceCandidate
        inv_timer_expires inv_stop inv_stop_begin inv_stop_resume)

lemma inv_run: "watchdog_inv tw \<Longrightarrow> watchdog_inv (endpoint_run ops tw)"
  unfolding endpoint_run_def
  by (induction ops arbitrary: tw) (simp_all add: inv_step)

lemma inv_init:
  "timers w = [] \<Longrightarrow> mediaFlowingTimeout t = None \<Longrightarrow> mediaStateTimeout t = None \<Longrightarrow>
     watchdog_inv (t, w)"
  by (simp add: watchdog_inv_def pending_def)

text \<open>
  What holds of the watchdogs in every run of an endpoint, a \<open>stop\<close> that is suspended
  while other things happen included: at most one timer of each watchdog is pending, and
  arming a watchdog whose slot holds a handle changes nothing.
\<close>

lemma watchdogs_single_timer:
  assumes "timers w0 = []" and "mediaFlowingTimeout t0 = None" and "mediaStateTimeout t0 = None"
    and "endpoint_run ops (t0, w0) = (t, w)"
  shows "pending NotFlowingTimeout w \<le> 1" and "pending DisconnectedTimeout w \<le> 1"
    and "mediaFlowingTimeout t \<noteq> None \<Longrightarrow> setMediaFlowingTimeout (t, w) = (t, w)"
    and "mediaStateTimeout t \<noteq> None \<Longrightarrow> setMediaStateTimeout (t, w) = (t, w)"
proof -
  have inv: "watchdog_inv (t, w)"
    using inv_run[OF inv_init[OF assms(1,2,3)], of ops] assms(4) by simp
  then show "pending NotFlowingTimeout w \<le> 1" and "pending DisconnectedTimeout w \<le> 1"
    by (simp_all add: watchdog_inv_def)
  show "mediaFlowingTimeout t \<noteq> None \<Longrightarrow> setMediaFlowingTimeout (t, w) = (t, w)"
    by (auto simp: setMediaFlowingTimeout_def)
  show "mediaStateTimeout t \<noteq> None \<Longrightarrow> setMediaStateTimeout (t, w) = (t, w)"
    by (auto simp: setMediaStateTimeout_def)
qed

text \<open>
  The positive transitions clear their watchdog on an endpoint that has its bridge; for
  \<open>CONNECTED\<close> the state of the event must carry its \<^verbatim>\<open>rawEvent\<close> as well.
\<close>

lemma flowing_clears:
  assumes "watchdog_inv tw" "has_bridge (fst tw)" "ev_mediaId ev = target"
    "ev_name ev = MediaFlowInStateChange \<or> ev_name ev = MediaFlowOutStateChange"
    "ev_details ev = ''FLOWING''"
  shows "mediaFlowingTimeout (fst (mediaStateWebRTC ev target tw)) = None
         \<and> pending NotFlowingTimeout (snd (mediaStateWebRTC ev target tw)) = 0"
proof -
  have "mediaStateWebRTC ev target tw = onSubscriberMediaFlowing tw"
    using assms by (auto simp: mediaStateWebRTC_def getFullLogMetadata_throws_def)
  then show ?thesis
    using clearFlow_cleared[OF assms(1)] assms(2)
    by (cases "clearMediaFlowingTimeout tw")
       (simp add: onSubscriberMediaFlowing_def sendToClient_def pending_def
          getFullLogMetadata_throws_def)
qed

lemma connected_clears:
  assumes "watchdog_inv tw" "has_bridge (fst tw)" "ev_mediaId ev = target"
    "ev_name ev = MediaStateChanged" "ev_details ev = ''CONNECTED''" "ev_rawEvent ev \<noteq> None"
  shows "mediaStateTimeout (fst (mediaStateWebRTC ev target tw)) = None
         \<and> pending DisconnectedTimeout (snd (mediaStateWebRTC ev target tw)) = 0"
  using assms clearState_cleared[OF assms(1)]
  by (auto simp: mediaStateWebRTC_def handleMediaStateChanged_def onSubscriberMediaConnected_def
      getFullLogMetadata_throws_def)

text \<open>
  A \<open>CONNECTED\<close> event whose state has no \<^verbatim>\<open>rawEvent\<close> ends the handler before the
  test of the details: the media-state watchdog stays armed.
\<close>

lemma connected_without_rawEvent_keeps_timer:
  "mediaStateWebRTC (connected_event\<lparr>ev_rawEvent := None\<rparr>) ''media1'' transceiver_watched =
     transceiver_watched
   \<and> mediaStateTimeout (fst transceiver_watched) = Some 1
   \<and> pending DisconnectedTimeout (snd transceiver_watched) = 1"
  by (simp add: transceiver_watched_def transceiver1_def transceiver0_def
      ClientAudioStTransceiver_def world0_def not_flowing_event_def flowing_event_def
      connected_event_def disconnected_event_def endpoint_run_def mediaStateWebRTC_def
      handleMediaStateChanged_def onSubscriberMediaNotFlowing_def
      onSubscriberMediaDisconnected_def setMediaFlowingTimeout_def setMediaStateTimeout_def
      setTimeout_def getFullLogMetadata_throws_def pending_def)

text \<open>
  Claim C5. The claim says that a watchdog is cleared on its positive transition and that
  both are cleared by \<open>stop\<close>. The source clears both at the beginning of \<open>stop\<close> and
  then waits for \<^verbatim>\<open>mcs.unpublish\<close>, with its subscription to the media events still in
  place. Here a started endpoint is stopped, and a \<open>NOT_FLOWING\<close> event for its media
  arrives while \<open>stop\<close> waits: the event arms the media-flow watchdog again, and \<open>stop\<close>
  resolves with the timer pending and the bridge gone. A \<open>FLOWING\<close> event after that
  clears nothing, since the handler throws on the missing bridge before it does anything;
  and when the timer expires its callback throws likewise.
\<close>

theorem stop_leaves_watchdog_armed:
  "fst (stop_begin transceiver2) = True
   \<and> timers (snd (snd (stop_begin transceiver2))) = []
   \<and> fst (stop_resume (endpoint_run [OpStopBegin, OpMediaState not_flowing_event ''media1'']
             transceiver2)) = None
   \<and> has_bridge (fst transceiver_stop_raced) = False
   \<and> mediaFlowingTimeout (fst transceiver_stop_raced) = Some 0
   \<and> timers (snd transceiver_stop_raced) = [(0, NotFlowingTimeout)]
   \<and> pending NotFlowingTimeout (snd transceiver_stop_raced) = 1
   \<and> mediaStateWebRTC flowing_event ''media1'' transceiver_stop_raced = transceiver_stop_raced
   \<and> mediaFlowingTimeout (fst (timer_expires 0 transceiver_stop_raced)) = Some 0
   \<and> client_frames (snd (timer_expires 0 transceiver_stop_raced)) = []"
  by (simp add: transceiver_stop_raced_def transceiver2_def transceiver0_def
      ClientAudioStTransceiver_def world0_def env_ok_def errors0_def start_defs
      not_flowing_event_def flowing_event_def endpoint_run_def
      stop_begin_def stop_resume_def stop_bridge_def untrackMCSEvents_def
      clearMediaFlowingTimeout_def clearMediaStateTimeout_def
      mediaStateWebRTC_def onSubscriberMediaNotFlowing_def onSubscriberMediaFlowing_def
      setMediaFlowingTimeout_def setTimeout_def clearTimeout_def timer_expires_def
      onSubscriberMediaNotFlowingTimeout_def pending_def rejected_def)

section \<open>Stopping an audio session\<close>

lemma clearClientEndpointEvents_None:
  "clientEndpoint s = None \<Longrightarrow> clearClientEndpointEvents ops (s, w) = (s, w)"
  by (simp add: clearClientEndpointEvents_def)





text \<open>
  The first \<open>stop\<close> of a session resolves when the session has no endpoint, or a
  transceiver that still has its bridge.
\<close>

lemma stop_with_bridge_resolves: "has_bridge t \<Longrightarrow> fst (stop (t, w)) = None"
  by (auto simp: stop_def stop_begin_def stop_resume_def stop_bridge_def Let_def
      untrackMCSEvents_def getFullLogMetadata_throws_def
      clearMediaFlowingTimeout_def clearMediaStateTimeout_def split: prod.splits option.splits)

lemma AudioSession_stop_resolves:
  assumes "clientEndpoint s = None
     \<or> (\<exists>t. clientEndpoint s = Some (TransceiverEndpoint t) \<and> has_bridge t)"
  shows "fst (AudioSession_stop ops (s, w)) = None"
proof (cases "clientEndpoint s")
  case None
  then show ?thesis
    by (simp add: AudioSession_stop_def clearClientEndpointEvents_def session_untrackMCSEvents_def
        untrackMeetingEvents_def)
next
  case (Some ep)
  with assms obtain t where t: "ep = TransceiverEndpoint t" "has_bridge t"
    by auto
  let ?t1 = "(untrackMCSEvents t)\<lparr>endpoint_listeners := 0\<rparr>"
  have "has_bridge ?t1"
    using t(2) by (simp add: untrackMCSEvents_def)
  then have r: "fst (stop (?t1, w)) = None"
    by (rule stop_with_bridge_resolves)
  obtain r' t' w' where st: "stop (?t1, w) = (r', t', w')"
    by (cases "stop (?t1, w)")
  with r have "r' = None" by simp
  with Some t st show ?thesis
    by (simp add: AudioSession_stop_def clearClientEndpointEvents_def
        endpoint_finalDetachEventListeners_def finalDetachEventListeners_def
        session_untrackMCSEvents_def untrackMeetingEvents_def endpoint_stop_def Let_def)
qed




section \<open>Starting a video session\<close>

lemmas video_example_defs = manager0_def manager1_def request0_def venv_ok_def venv_deny_def
  venv_start_fails_def errors0_def new_video_def Video_def getSessionId_def getCameraId_def
  handleStart_def handleStart_stored_def handleStart_closed_def handleStart_catch_def
  getPermission_def getSession_def storeSession_def session_call_def fetchIceQueue_def
  closeSession_def stopSession_def deleteIceQueue_def flushIceQueue_def mutate_session_def
  manager_handleError_def manager_sendToClient_def increment_errors_def table_delete_def Let_def


lemma fst_table_set: "set (map fst (table_set k v ps)) = insert k (set (map fst ps))"
  by (induction ps) auto

lemma distinct_table_set:
  "distinct (map fst ps) \<Longrightarrow> distinct (map fst (table_set k v ps))"
proof (induction ps)
  case Nil
  then show ?case by simp
next
  case (Cons p ps)
  then show ?case
    using fst_table_set[of k v ps] by auto
qed

lemma map_of_table_set: "map_of (table_set k v ps) = (map_of ps)(k \<mapsto> v)"
  by (induction ps) (auto simp: fun_eq_iff)

lemma filter_key_absent: "k \<notin> fst ` set ps \<Longrightarrow> filter (\<lambda>p. fst p = k) ps = []"
  by (induction ps) auto

lemma one_entry_table_set:
  "distinct (map fst ps) \<Longrightarrow> length (filter (\<lambda>p. fst p = k) (table_set k v ps)) = 1"
  by (induction ps) (auto simp: filter_key_absent)

lemma distinct_table_delete:
  "distinct (map fst ps) \<Longrightarrow> distinct (map fst (table_delete k ps))"
  by (simp add: table_delete_def distinct_map_filter)

lemma map_of_table_delete: "map_of (table_delete k ps) k = None"
  by (induction ps) (auto simp: table_delete_def)

lemma map_fst_mutate: "map fst (map (\<lambda>p. if fst p = k then (fst p, v) else p) ps) = map fst ps"
  by (induction ps) auto

lemma map_of_mutate:
  "map_of (map (\<lambda>p. if fst p = k then (fst p, v) else p) ps) k =
     (if k \<in> fst ` set ps then Some v else None)"
  by (induction ps) auto

lemma sessions_fetchIceQueue: "sessions (snd (fetchIceQueue k m)) = sessions m"
  by (simp add: fetchIceQueue_def split: option.splits)

lemma calls_fetchIceQueue: "session_calls (snd (fetchIceQueue k m)) = session_calls m"
  by (simp add: fetchIceQueue_def split: option.splits)

lemma getSession_fetchIceQueue: "getSession k (snd (fetchIceQueue k' m)) = getSession k m"
  by (simp add: getSession_def sessions_fetchIceQueue)

lemma closeSession_sessions:
  "sessions (closeSession env k m) = (if getSession k m = None then sessions m else table_delete k (sessions m))"
  by (simp add: closeSession_def stopSession_def deleteIceQueue_def session_call_def split: option.splits)

lemma closeSession_calls:
  "session_calls (closeSession env k m) =
     (if getSession k m = None then session_calls m else session_calls m @ [VideoStop k])"
  by (simp add: closeSession_def stopSession_def deleteIceQueue_def session_call_def split: option.splits)

lemma handleStart_closed_sessions:
  "sessions (snd (handleStart_closed env request m)) = table_delete (getSessionId request) (sessions m)"
proof -
  have "getSession (getSessionId request) m = None \<Longrightarrow>
        table_delete (getSessionId request) (sessions m) = sessions m"
    by (force simp: getSession_def table_delete_def map_of_eq_None_iff filter_id_conv)
  then show ?thesis
    using sessions_fetchIceQueue[of "getSessionId request" m]
      getSession_fetchIceQueue[of "getSessionId request" "getSessionId request" m]
    by (cases "fetchIceQueue (getSessionId request) m")
       (auto simp: handleStart_closed_def Let_def closeSession_sessions)
qed


lemma handleStart_closed_calls:
  "session_calls (snd (handleStart_closed env request m)) =
     (if getSession (getSessionId request) m = None then session_calls m
      else session_calls m @ [VideoStop (getSessionId request)])"
  using calls_fetchIceQueue[of "getSessionId request" m]
    getSession_fetchIceQueue[of "getSessionId request" "getSessionId request" m]
  by (cases "fetchIceQueue (getSessionId request) m")
     (auto simp: handleStart_closed_def Let_def closeSession_calls)

lemma handleStart_stored_sessions:
  "sessions (snd (handleStart_stored env request m)) =
     table_set (getSessionId request) (new_video request)
       (table_delete (getSessionId request) (sessions m))"
  using handleStart_closed_sessions[of env request m]
  by (cases "handleStart_closed env request m")
     (simp add: handleStart_stored_def storeSession_def session_call_def)

lemma handleStart_stored_calls:
  "session_calls (snd (handleStart_stored env request m)) =
     session_calls (snd (handleStart_closed env request m)) @ [VideoNew (getSessionId request)]"
  by (cases "handleStart_closed env request m")
     (simp add: handleStart_stored_def storeSession_def session_call_def)

lemma handleStart_catch_fields:
  "sessions (handleStart_catch request e m) = sessions m"
  "session_calls (handleStart_catch request e m) = session_calls m"
  "sent (handleStart_catch request e m) =
     sent m @ [ErrorFrame (manager_handleError (msg_connectionId request) (msg_cameraId request)
                 (msg_role request) e)]"
  "errors_total (handleStart_catch request e m) = errors_total m @ [(msg_id request, err_code e)]"
  by (simp_all add: handleStart_catch_def manager_sendToClient_def increment_errors_def
      manager_handleError_def Let_def)

lemma handleStart_granted_sessions:
  assumes "getPermission errors env request = None"
  shows "sessions (handleStart errors env request m) =
     map (\<lambda>p. if fst p = getSessionId request
               then (fst p, snd (Video_start env (new_video request) (msg_sdpOffer request)))
               else p)
       (table_set (getSessionId request) (new_video request)
          (table_delete (getSessionId request) (sessions m)))"
  using assms handleStart_stored_sessions[of env request m]
  by (cases "handleStart_stored env request m";
      cases "Video_start env (new_video request) (msg_sdpOffer request)")
     (auto simp: handleStart_def Let_def handleStart_catch_fields mutate_session_def
        session_call_def manager_sendToClient_def flushIceQueue_def split: sum.splits)

lemma handleStart_granted_calls:
  assumes "getPermission errors env request = None"
  shows "\<exists>rest. session_calls (handleStart errors env request m) =
     session_calls (snd (handleStart_stored env request m))
       @ [VideoStart (getSessionId request) (msg_sdpOffer request)] @ rest"
  using assms
  by (cases "handleStart_stored env request m";
      cases "Video_start env (new_video request) (msg_sdpOffer request)")
     (auto simp: handleStart_def Let_def handleStart_catch_fields mutate_session_def
        session_call_def manager_sendToClient_def flushIceQueue_def split: sum.splits)


lemma one_entry_mutate:
  "length (filter (\<lambda>p. fst p = k) (map (\<lambda>p. if fst p = k' then (fst p, v) else p) ps)) =
   length (filter (\<lambda>p. fst p = k) ps)"
  by (induction ps) auto

text \<open>
  Claim C3. A granted \<open>start\<close> whose key has a session in a table without duplicate
  keys. \<open>handleStart\<close> stops the existing session first, then constructs the new one,
  then starts it: these are the first three calls it makes. Once the stale session is
  closed no session is stored under the key. The table has no duplicate key at each point
  where \<open>handleStart\<close> is suspended (stale session closed, new session stored) and at
  its end, whether the start of the new session succeeded or failed; at the end exactly
  one entry has the key, and it is the new session.
\<close>

theorem handleStart_replaces_stale_session:
  assumes "distinct (map fst (sessions m))"
    and "getPermission errors env request = None"
    and "getSession (getSessionId request) m = Some old"
  shows "(\<exists>rest. session_calls (handleStart errors env request m) =
            session_calls m @ [VideoStop (getSessionId request), VideoNew (getSessionId request),
              VideoStart (getSessionId request) (msg_sdpOffer request)] @ rest)
     \<and> getSession (getSessionId request) (snd (handleStart_closed env request m)) = None
     \<and> distinct (map fst (sessions (snd (handleStart_closed env request m))))
     \<and> distinct (map fst (sessions (snd (handleStart_stored env request m))))
     \<and> distinct (map fst (sessions (handleStart errors env request m)))
     \<and> length (filter (\<lambda>p. fst p = getSessionId request)
                 (sessions (handleStart errors env request m))) = 1
     \<and> getSession (getSessionId request) (handleStart errors env request m) =
         Some (snd (Video_start env (new_video request) (msg_sdpOffer request)))"
proof -
  let ?sid = "getSessionId request"
  let ?del = "table_delete ?sid (sessions m)"
  have d1: "distinct (map fst ?del)"
    using assms(1) by (rule distinct_table_delete)
  have d2: "distinct (map fst (table_set ?sid (new_video request) ?del))"
    using d1 by (rule distinct_table_set)
  have order: "\<exists>rest. session_calls (handleStart errors env request m) =
            session_calls m @ [VideoStop ?sid, VideoNew ?sid,
              VideoStart ?sid (msg_sdpOffer request)] @ rest"
    using handleStart_granted_calls[OF assms(2), of m] assms(3)
    by (auto simp: handleStart_stored_calls handleStart_closed_calls)
  have closed: "getSession ?sid (snd (handleStart_closed env request m)) = None"
    by (simp add: getSession_def handleStart_closed_sessions map_of_table_delete)
  have final: "sessions (handleStart errors env request m) =
     map (\<lambda>p. if fst p = ?sid
               then (fst p, snd (Video_start env (new_video request) (msg_sdpOffer request)))
               else p)
       (table_set ?sid (new_video request) ?del)"
    by (rule handleStart_granted_sessions[OF assms(2)])
  have d3: "distinct (map fst (sessions (handleStart errors env request m)))"
    using d2 by (simp only: final map_fst_mutate)
  have one: "length (filter (\<lambda>p. fst p = ?sid) (sessions (handleStart errors env request m))) = 1"
    using d1 by (simp only: final one_entry_mutate one_entry_table_set)
  have stored: "getSession ?sid (handleStart errors env request m) =
         Some (snd (Video_start env (new_video request) (msg_sdpOffer request)))"
    unfolding getSession_def final map_of_mutate
    using fst_table_set[of ?sid "new_video request" ?del] by simp
  show ?thesis
    using order closed d1 d2 d3 one stored
    by (simp only: handleStart_closed_sessions handleStart_stored_sessions simp_thms)
qed

theorem handleStart_replaces_stale_session_witness:
  "session_calls (handleStart errors0 venv_ok request0 (handleStart errors0 venv_ok request0 manager0)) =
     [VideoNew ''u1-c1-share'', VideoStart ''u1-c1-share'' ''O'',
      TrackMediaServerOffline ''u1-c1-share'',
      VideoStop ''u1-c1-share'', VideoNew ''u1-c1-share'', VideoStart ''u1-c1-share'' ''O'',
      TrackMediaServerOffline ''u1-c1-share'']
   \<and> sessions (handleStart errors0 venv_ok request0 (handleStart errors0 venv_ok request0 manager0)) =
     [(''u1-c1-share'', (new_video request0)\<lparr>status := MEDIA_STARTED\<rparr>)]"
  using handleStart_replaces_stale_session[where m = "handleStart errors0 venv_ok request0 manager0"
      and errors = errors0 and env = venv_ok and request = request0
      and old = "(new_video request0)\<lparr>status := MEDIA_STARTED\<rparr>"]
  by (simp add: video_example_defs)

text \<open>
  Claim C6. A \<open>start\<close> whose permission query is denied with error \<open>e\<close>: the manager
  afterwards is the manager before with one error frame appended, which carries the code
  of \<open>e\<close>, and the error metric incremented once under the method of the request (its
  \<open>id\<close>, which is \<open>start\<close> for a start request) and that code. Nothing else
  changes; in particular the session table is the same. The query is the broadcast query
  for role \<open>share\<close>, the subscribe query for role \<open>viewer\<close>, and for any other role it
  is denied with \<open>SFU_INVALID_REQUEST\<close>.
\<close>

theorem handleStart_denied:
  "(getPermission errors env request = Some e \<longrightarrow>
      handleStart errors env request m =
        m\<lparr>sent := sent m @ [ErrorFrame (manager_handleError (msg_connectionId request)
                                (msg_cameraId request) (msg_role request) e)],
          errors_total := errors_total m @ [(msg_id request, err_code e)]\<rparr>
      \<and> em_code (manager_handleError (msg_connectionId request) (msg_cameraId request)
                   (msg_role request) e) = err_code e
      \<and> sessions (handleStart errors env request m) = sessions m
      \<and> count_list (errors_total (handleStart errors env request m)) (msg_id request, err_code e) =
          Suc (count_list (errors_total m) (msg_id request, err_code e)))
   \<and> (msg_role request = ''share'' \<longrightarrow>
        getPermission errors env request =
          getCamBroadcastPermission env (msg_meetingId request) (msg_userId request)
            (msg_cameraId request) (msg_connectionId request))
   \<and> (msg_role request = ''viewer'' \<longrightarrow>
        getPermission errors env request =
          getCamSubscribePermission env (msg_meetingId request) (msg_userId request)
            (msg_cameraId request) (msg_connectionId request))
   \<and> (msg_role request \<noteq> ''share'' \<and> msg_role request \<noteq> ''viewer'' \<longrightarrow>
        getPermission errors env request = Some (SFU_INVALID_REQUEST errors))"
  by (simp add: handleStart_def handleStart_catch_def manager_sendToClient_def
      increment_errors_def manager_handleError_def getPermission_def Let_def)

theorem handleStart_denied_witness:
  "handleStart errors0 venv_deny request0 manager1 =
     manager1\<lparr>sent := sent manager1 @
         [ErrorFrame \<lparr>em_connectionId = ''conn1'', em_streamId = ''c1'', em_role = ''share'',
            em_code = Some 403, em_reason = ''PERMISSION_DENIED''\<rparr>],
       errors_total := [(''start'', Some 403)]\<rparr>
   \<and> sessions (handleStart errors0 venv_deny request0 manager1) = sessions manager1
   \<and> handleStart errors0 venv_deny (request0\<lparr>msg_role := ''viewer''\<rparr>) manager0 =
     manager0\<lparr>sent :=
         [ErrorFrame \<lparr>em_connectionId = ''conn1'', em_streamId = ''c1'', em_role = ''viewer'',
            em_code = Some 404, em_reason = ''SUBSCRIBE_DENIED''\<rparr>],
       errors_total := [(''start'', Some 404)]\<rparr>
   \<and> handleStart errors0 venv_ok (request0\<lparr>msg_role := ''presenter''\<rparr>) manager0 =
     manager0\<lparr>sent :=
         [ErrorFrame \<lparr>em_connectionId = ''conn1'', em_streamId = ''c1'', em_role = ''presenter'',
            em_code = Some 2203, em_reason = ''SFU_INVALID_REQUEST''\<rparr>],
       errors_total := [(''start'', Some 2203)]\<rparr>"
  using handleStart_denied[where errors = errors0 and env = venv_deny and request = request0
      and m = manager1 and e = "SfuError (Some 403) ''PERMISSION_DENIED''"]
    handleStart_denied[where errors = errors0 and env = venv_deny
      and request = "request0\<lparr>msg_role := ''viewer''\<rparr>"
      and m = manager0 and e = "SfuError (Some 404) ''SUBSCRIBE_DENIED''"]
    handleStart_denied[where errors = errors0 and env = venv_ok
      and request = "request0\<lparr>msg_role := ''presenter''\<rparr>"
      and m = manager0 and e = "SFU_INVALID_REQUEST errors0"]
  by (simp add: video_example_defs)

text \<open>
  Claim C10. A granted \<open>start\<close> whose \<open>video.start\<close> rejects with error \<open>e\<close>, leaving
  the new session as \<open>v'\<close>: at the end of \<open>handleStart\<close> the session table holds
  \<open>v'\<close> under the key, one error frame for \<open>e\<close> was sent, and the error metric was
  incremented once; the last calls were the construction of the session and its start,
  and no stop follows.
\<close>

theorem handleStart_failed_start_stays_stored:
  assumes "getPermission errors env request = None"
    and "Video_start env (new_video request) (msg_sdpOffer request) = (Inl e, v')"
  shows "getSession (getSessionId request) (handleStart errors env request m) = Some v'
    \<and> sent (handleStart errors env request m) =
        sent m @ [ErrorFrame (manager_handleError (msg_connectionId request)
                     (msg_cameraId request) (msg_role request) e)]
    \<and> errors_total (handleStart errors env request m) =
        errors_total m @ [(msg_id request, err_code e)]
    \<and> (\<exists>before. session_calls (handleStart errors env request m) =
          before @ [VideoNew (getSessionId request),
                    VideoStart (getSessionId request) (msg_sdpOffer request)])"
proof -
  obtain q m3 where st: "handleStart_stored env request m = (q, m3)"
    by (cases "handleStart_stored env request m")
  have eq: "handleStart errors env request m =
      handleStart_catch request e
        (mutate_session (getSessionId request) v'
           (session_call (VideoStart (getSessionId request) (msg_sdpOffer request)) m3))"
    using assms st by (simp add: handleStart_def Let_def)
  have m3s: "sessions m3 = table_set (getSessionId request) (new_video request)
       (table_delete (getSessionId request) (sessions m))"
    using handleStart_stored_sessions[of env request m] st by simp
  have m3c: "session_calls m3 =
      session_calls (snd (handleStart_closed env request m)) @ [VideoNew (getSessionId request)]"
    using handleStart_stored_calls[of env request m] st by simp
  have m3o: "sent m3 = sent m \<and> errors_total m3 = errors_total m"
    using st
    by (auto simp: handleStart_stored_def handleStart_closed_def storeSession_def session_call_def
        fetchIceQueue_def closeSession_def stopSession_def deleteIceQueue_def Let_def
        split: prod.splits option.splits if_splits)
  have stored: "getSession (getSessionId request) (handleStart errors env request m) = Some v'"
    using fst_table_set[of "getSessionId request" "new_video request"
        "table_delete (getSessionId request) (sessions m)"]
    by (simp add: eq handleStart_catch_fields mutate_session_def session_call_def getSession_def
        m3s map_of_mutate)
  show ?thesis
    using stored m3o m3c
    by (simp add: eq handleStart_catch_fields mutate_session_def session_call_def)
qed

theorem handleStart_failed_start_stays_stored_witness:
  "handleStart errors0 venv_start_fails request0 manager0 =
     manager0\<lparr>sessions := [(''u1-c1-share'', new_video request0)],
       iceQueues := [(''u1-c1-share'', [])],
       sent := [ErrorFrame \<lparr>em_connectionId = ''conn1'', em_streamId = ''c1'',
                  em_role = ''share'', em_code = Some 2200, em_reason = ''NEGOTIATION_FAILED''\<rparr>],
       errors_total := [(''start'', Some 2200)],
       session_calls := [VideoNew ''u1-c1-share'', VideoStart ''u1-c1-share'' ''O'']\<rparr>"
  using handleStart_failed_start_stays_stored[where errors = errors0 and env = venv_start_fails
      and request = request0 and m = manager0
      and e = "SfuError (Some 2200) ''NEGOTIATION_FAILED''" and v' = "new_video request0"]
  by (simp add: video_example_defs)

section \<open>Readiness of a video session\<close>

lemma isVideoInstanceReady_any_status: "isVideoInstanceReady (VideoInstance v)"
  by (cases "status v") simp_all

text \<open>
  Claim C8. The claim says \<open>isVideoInstanceReady\<close> is true exactly for a session in
  \<open>MEDIA_STARTING\<close> or \<open>MEDIA_STARTED\<close>. The source returns true for every session,
  since no status equals both \<open>MEDIA_STOPPED\<close> and \<open>MEDIA_STOPPING\<close>. Here a session
  that is being stopped is reported ready, and \<open>handleIceCandidate\<close> hands the candidate
  to it and leaves the pending queue empty.
\<close>

theorem isVideoInstanceReady_stopping:
  "isVideoInstanceReady (to_js_value (getSession ''u1-c1-share'' manager_stopping))
   \<and> status (the (getSession ''u1-c1-share'' manager_stopping)) = MEDIA_STOPPING
   \<and> handleIceCandidate ice_message manager_stopping =
       manager_stopping\<lparr>iceQueues := [(''u1-c1-share'', [])],
         session_calls := [VideoOnIceCandidate ''u1-c1-share'' ''C1'']\<rparr>"
  by (simp add: manager_stopping_def ice_message_def manager0_def request0_def new_video_def
      Video_def getSessionId_def getCameraId_def getSession_def to_js_value_def
      handleIceCandidate_def fetchIceQueue_def session_call_def Let_def)

section \<open>External webcam sources\<close>

lemma replace_SIP_suffix: "replace_SIP (s @ ''|SIP'') = replace_SIP s"
  by (induction s rule: replace_SIP.induct) auto

lemma replace_SIP_no_bar: "CHR ''|'' \<notin> set s \<Longrightarrow> replace_SIP s = s"
  by (induction s rule: replace_SIP.induct) auto

lemma reserved_prefix_matches: "spec_reserved_prefix u \<Longrightarrow> match_v_underscores u \<noteq> None"
  by (cases u) (auto simp: spec_reserved_prefix_def)

lemma other_letter_no_match:
  "u = [] \<or> (hd u \<noteq> CHR ''v'' \<and> hd u \<noteq> CHR ''V'') \<Longrightarrow> match_v_underscores u = None"
  by (cases u) auto

lemma sources_two_keys:
  "map_of (sources (Video_setSource k2 n (Video_setSource k1 n m))) k1 = Some n
   \<and> map_of (sources (Video_setSource k2 n (Video_setSource k1 n m))) k2 = Some n"
  by (simp add: Video_setSource_def map_of_table_set)

text \<open>
  The user id \<open>vincent\<close> does not begin with \<open>v_\<close>, yet the source table is updated
  for it: the pattern of the source matches every user id that begins with the letter v.
\<close>

lemma trackExternalWebcamSources_any_v:
  "\<not> spec_reserved_prefix ''vincent''
   \<and> sources (trackExternalWebcamSources \<lparr>stream = ''cam1'', cam_userId = ''vincent''\<rparr> manager0) =
       [(''cam1'', ''cam1''), (''vincent'', ''cam1'')]"
  by (simp add: spec_reserved_prefix_def trackExternalWebcamSources_def Video_setSource_def
      manager0_def Let_def)

text \<open>
  Claim C9, as stated, fails: for the stream name \<open>cam|SIP_1\<close>, which has no \<open>|SIP\<close>
  suffix, the specification's wording registers the name unchanged, and the source
  registers \<open>cam_1\<close>.
\<close>

theorem trackExternalWebcamSources_counterexample:
  "trackExternalWebcamSources \<lparr>stream = ''cam|SIP_1'', cam_userId = ''v_1''\<rparr> manager0 \<noteq>
     spec_trackExternalWebcamSources \<lparr>stream = ''cam|SIP_1'', cam_userId = ''v_1''\<rparr> manager0
   \<and> sources (trackExternalWebcamSources \<lparr>stream = ''cam|SIP_1'', cam_userId = ''v_1''\<rparr> manager0) =
       [(''cam|SIP_1'', ''cam_1''), (''v_1'', ''cam_1'')]
   \<and> sources (spec_trackExternalWebcamSources \<lparr>stream = ''cam|SIP_1'', cam_userId = ''v_1''\<rparr> manager0) =
       [(''cam|SIP_1'', ''cam|SIP_1''), (''v_1'', ''cam|SIP_1'')]"
proof -
  have a: "sources (trackExternalWebcamSources \<lparr>stream = ''cam|SIP_1'', cam_userId = ''v_1''\<rparr> manager0) =
       [(''cam|SIP_1'', ''cam_1''), (''v_1'', ''cam_1'')]"
    by (simp add: trackExternalWebcamSources_def Video_setSource_def manager0_def Let_def)
  have b: "sources (spec_trackExternalWebcamSources \<lparr>stream = ''cam|SIP_1'', cam_userId = ''v_1''\<rparr> manager0) =
       [(''cam|SIP_1'', ''cam|SIP_1''), (''v_1'', ''cam|SIP_1'')]"
    by (simp add: spec_trackExternalWebcamSources_def spec_reserved_prefix_def
        spec_strip_SIP_suffix_def Video_setSource_def manager0_def)
  from a b have "sources (trackExternalWebcamSources \<lparr>stream = ''cam|SIP_1'', cam_userId = ''v_1''\<rparr> manager0) \<noteq>
      sources (spec_trackExternalWebcamSources \<lparr>stream = ''cam|SIP_1'', cam_userId = ''v_1''\<rparr> manager0)"
    by simp
  then have "trackExternalWebcamSources \<lparr>stream = ''cam|SIP_1'', cam_userId = ''v_1''\<rparr> manager0 \<noteq>
     spec_trackExternalWebcamSources \<lparr>stream = ''cam|SIP_1'', cam_userId = ''v_1''\<rparr> manager0"
    by auto
  with a b show ?thesis by simp
qed

text \<open>
  Claim C9, amended. When the user id of the event begins with \<open>v_\<close>, the stream name
  with every occurrence of \<open>|SIP\<close> removed (the letters in either case) is registered
  under the original stream name and under the user id. When the user id is empty or
  begins with a character other than the letter v, the table is not updated. Removing
  the occurrences strips a \<open>|SIP\<close> suffix, and leaves a name without the character
  \<open>|\<close> as it is.
\<close>

theorem trackExternalWebcamSources_amended:
  "(spec_reserved_prefix (cam_userId payload) \<longrightarrow>
      trackExternalWebcamSources payload m =
        Video_setSource (cam_userId payload) (replace_SIP (stream payload))
          (Video_setSource (stream payload) (replace_SIP (stream payload)) m)
      \<and> map_of (sources (trackExternalWebcamSources payload m)) (stream payload) =
          Some (replace_SIP (stream payload))
      \<and> map_of (sources (trackExternalWebcamSources payload m)) (cam_userId payload) =
          Some (replace_SIP (stream payload)))
   \<and> (cam_userId payload = []
       \<or> (hd (cam_userId payload) \<noteq> CHR ''v'' \<and> hd (cam_userId payload) \<noteq> CHR ''V'') \<longrightarrow>
      trackExternalWebcamSources payload m = m)
   \<and> replace_SIP (s @ ''|SIP'') = replace_SIP s
   \<and> (CHR ''|'' \<notin> set s \<longrightarrow> replace_SIP s = s)"
  using reserved_prefix_matches[of "cam_userId payload"]
    other_letter_no_match[of "cam_userId payload"]
    sources_two_keys[of "cam_userId payload" "replace_SIP (stream payload)" "stream payload" m]
  by (auto simp: trackExternalWebcamSources_def Let_def replace_SIP_suffix replace_SIP_no_bar)

theorem trackExternalWebcamSources_amended_witness:
  "sources (trackExternalWebcamSources \<lparr>stream = ''cam1|SIP'', cam_userId = ''v_1''\<rparr> manager0) =
     [(''cam1|SIP'', ''cam1''), (''v_1'', ''cam1'')]
   \<and> trackExternalWebcamSources \<lparr>stream = ''cam1|SIP'', cam_userId = ''u1''\<rparr> manager0 = manager0
   \<and> replace_SIP ''cam1'' = ''cam1''"
  using trackExternalWebcamSources_amended[where payload = "\<lparr>stream = ''cam1|SIP'', cam_userId = ''v_1''\<rparr>"
      and m = manager0 and s = "''cam1''"]
    trackExternalWebcamSources_amended[where payload = "\<lparr>stream = ''cam1|SIP'', cam_userId = ''u1''\<rparr>"
      and m = manager0 and s = "''cam1''"]
  by (simp add: spec_reserved_prefix_def Video_setSource_def manager0_def Let_def)

section \<open>The lifecycle queues\<close>

lemma map_of_table_delete_any:
  "map_of (table_delete k ps) k' = (if k' = k then None else map_of ps k')"
  by (induction ps) (auto simp: table_delete_def)

lemma tasks_append:
  "enqueued_tasks k (tr @ tr') = enqueued_tasks k tr @ enqueued_tasks k tr'"
  "began_tasks k (tr @ tr') = began_tasks k tr @ began_tasks k tr'"
  by (simp_all add: enqueued_tasks_def began_tasks_def map_filter_def)

lemma tasks_single:
  "enqueued_tasks k [e] = (case enqueued_task k e of None \<Rightarrow> [] | Some t \<Rightarrow> [t])"
  "began_tasks k [e] = (case began_task k e of None \<Rightarrow> [] | Some t \<Rightarrow> [t])"
  by (simp_all add: enqueued_tasks_def began_tasks_def map_filter_def split: option.splits)

lemma inv_next: "lifecycle_inv k m \<Longrightarrow> lifecycle_inv k (lifecycle_next sid m)"
  by (auto simp: lifecycle_inv_def lifecycle_next_def queue_state_def map_of_table_set
      map_of_table_delete_any tasks_append tasks_single split: option.splits list.splits)

lemma inv_push: "lifecycle_inv k m \<Longrightarrow> lifecycle_inv k (lifecycle_push sid t m)"
proof -
  assume inv: "lifecycle_inv k m"
  obtain q m1 where f: "fetchLifecycleQueue sid m = (q, m1)"
    by (cases "fetchLifecycleQueue sid m")
  let ?m2 = "m1\<lparr>lifecycleQueues :=
                  table_set sid (q\<lparr>waiting := waiting q @ [t]\<rparr>) (lifecycleQueues m1),
                lifecycle_trace := lifecycle_trace m1 @ [Enqueued sid t]\<rparr>"
  have "lifecycle_inv k ?m2"
    using inv f
    by (auto simp: lifecycle_inv_def fetchLifecycleQueue_def queue_state_def map_of_table_set
        tasks_append tasks_single split: option.splits)
  then show ?thesis
    by (simp add: lifecycle_push_def f inv_next)
qed

lemma inv_done: "lifecycle_inv k m \<Longrightarrow> lifecycle_inv k (lifecycle_done sid ok m)"
proof (cases "map_of (lifecycleQueues m) sid")
  case None
  assume "lifecycle_inv k m"
  with None show ?thesis by (simp add: lifecycle_done_def)
next
  case (Some q)
  assume inv: "lifecycle_inv k m"
  show ?thesis
  proof (cases "active q")
    case None
    with Some inv show ?thesis by (simp add: lifecycle_done_def)
  next
    case (Some t)
    let ?m2 = "m\<lparr>lifecycleQueues := table_set sid (q\<lparr>active := None\<rparr>) (lifecycleQueues m),
                    lifecycle_trace := lifecycle_trace m @ [Ended sid t ok]\<rparr>"
    have "lifecycle_inv k ?m2"
      using inv \<open>map_of (lifecycleQueues m) sid = Some q\<close> Some
      by (auto simp: lifecycle_inv_def queue_state_def map_of_table_set
          tasks_append tasks_single split: option.splits)
    then show ?thesis
      using \<open>map_of (lifecycleQueues m) sid = Some q\<close> Some
      by (simp add: lifecycle_done_def inv_next)
  qed
qed

lemma inv_cong:
  "lifecycle_inv k m \<Longrightarrow> lifecycleQueues m' = lifecycleQueues m \<Longrightarrow>
   lifecycle_trace m' = lifecycle_trace m \<Longrightarrow> lifecycle_inv k m'"
  by (simp add: lifecycle_inv_def queue_state_def)


lemma queues_fetchIceQueue:
  "lifecycleQueues (snd (fetchIceQueue k m)) = lifecycleQueues m
   \<and> lifecycle_trace (snd (fetchIceQueue k m)) = lifecycle_trace m"
  by (simp add: fetchIceQueue_def split: option.splits)

lemma queues_closeSession:
  "lifecycleQueues (closeSession env k m) = lifecycleQueues m
   \<and> lifecycle_trace (closeSession env k m) = lifecycle_trace m"
  by (simp add: closeSession_def stopSession_def deleteIceQueue_def session_call_def
      split: option.splits)

lemma queues_handleStart_catch:
  "lifecycleQueues (handleStart_catch request e m) = lifecycleQueues m
   \<and> lifecycle_trace (handleStart_catch request e m) = lifecycle_trace m"
  by (simp add: handleStart_catch_def manager_sendToClient_def increment_errors_def Let_def)

lemma queues_handleStart_closed:
  "lifecycleQueues (snd (handleStart_closed env request m)) = lifecycleQueues m
   \<and> lifecycle_trace (snd (handleStart_closed env request m)) = lifecycle_trace m"
  using queues_fetchIceQueue[of "getSessionId request" m]
  by (cases "fetchIceQueue (getSessionId request) m")
     (simp add: handleStart_closed_def Let_def queues_closeSession)

lemma queues_handleStart_stored:
  "lifecycleQueues (snd (handleStart_stored env request m)) = lifecycleQueues m
   \<and> lifecycle_trace (snd (handleStart_stored env request m)) = lifecycle_trace m"
  using queues_handleStart_closed[of env request m]
  by (cases "handleStart_closed env request m")
     (simp add: handleStart_stored_def storeSession_def session_call_def)

lemma queues_handleStart:
  "lifecycleQueues (handleStart errors env request m) = lifecycleQueues m
   \<and> lifecycle_trace (handleStart errors env request m) = lifecycle_trace m"
  using queues_handleStart_stored[of env request m]
  by (cases "handleStart_stored env request m";
      cases "Video_start env (new_video request) (msg_sdpOffer request)")
     (auto simp: handleStart_def Let_def queues_handleStart_catch mutate_session_def
        session_call_def manager_sendToClient_def flushIceQueue_def
        split: option.splits sum.splits)

lemma queues_handleSubscriberAnswer:
  "lifecycleQueues (handleSubscriberAnswer env message m) = lifecycleQueues m
   \<and> lifecycle_trace (handleSubscriberAnswer env message m) = lifecycle_trace m"
  by (simp add: handleSubscriberAnswer_def Let_def session_call_def increment_errors_def
      split: option.splits)

lemma queues_run_task:
  "lifecycleQueues (run_task errors env t m) = lifecycleQueues m
   \<and> lifecycle_trace (run_task errors env t m) = lifecycle_trace m"
  by (cases t)
     (simp_all add: queues_handleStart queues_handleSubscriberAnswer handleStop_def
        queues_closeSession)

lemma queues_handleIceCandidate:
  "lifecycleQueues (handleIceCandidate message m) = lifecycleQueues m
   \<and> lifecycle_trace (handleIceCandidate message m) = lifecycle_trace m"
  using queues_fetchIceQueue[of "getSessionId message" m]
  by (cases "fetchIceQueue (getSessionId message) m")
     (simp add: handleIceCandidate_def Let_def session_call_def)

lemma queues_handleInvalidRequest:
  "lifecycleQueues (handleInvalidRequest errors message m) = lifecycleQueues m
   \<and> lifecycle_trace (handleInvalidRequest errors message m) = lifecycle_trace m"
  by (simp add: handleInvalidRequest_def manager_sendToClient_def increment_errors_def Let_def)

lemma inv_kill_fold:
  "lifecycle_inv k m \<Longrightarrow>
   lifecycle_inv k (foldl (\<lambda>m' p. if video_connectionId (snd p) = c
                     then lifecycle_push (fst p) (CloseSessionTask (fst p)) m' else m') m ps)"
  by (induction ps arbitrary: m) (simp_all add: inv_push)

lemma inv_dispatch: "lifecycle_inv k m \<Longrightarrow> lifecycle_inv k (dispatch errors message m)"
  using inv_cong[OF _ conjunct1[OF queues_handleIceCandidate] conjunct2[OF queues_handleIceCandidate],
      of k m message]
    inv_cong[OF _ conjunct1[OF queues_handleInvalidRequest] conjunct2[OF queues_handleInvalidRequest],
      of k m errors message]
  by (simp add: dispatch_def inv_push handleClose_def killConnectionSessions_def inv_kill_fold)

lemma inv_onMessage: "lifecycle_inv k m \<Longrightarrow> lifecycle_inv k (onMessage errors env message m)"
proof -
  assume inv: "lifecycle_inv k m"
  let ?m1 = "m\<lparr>reqs_total := Suc (reqs_total m)\<rparr>"
  have i1: "lifecycle_inv k ?m1"
    using inv by (rule inv_cong) simp_all
  have "lifecycle_inv k (handleInvalidRequest errors message ?m1)"
    using i1 by (rule inv_cong) (simp_all add: queues_handleInvalidRequest)
  then show ?thesis
    using i1 by (simp add: onMessage_def Let_def inv_dispatch split: option.splits)
qed

lemma inv_task_settles: "lifecycle_inv k m \<Longrightarrow> lifecycle_inv k (task_settles errors env sid ok m)"
proof -
  assume inv: "lifecycle_inv k m"
  have "lifecycle_inv k (run_task errors env t m)" for t
    using inv by (rule inv_cong) (simp_all add: queues_run_task)
  then show ?thesis
    using inv by (simp add: task_settles_def inv_done split: option.splits)
qed

lemma inv_manager_run:
  "lifecycle_inv k m \<Longrightarrow> lifecycle_inv k (manager_run errors env events m)"
  unfolding manager_run_def
proof (induction events arbitrary: m)
  case Nil
  then show ?case by simp
next
  case (Cons e events)
  then show ?case
    by (cases e) (simp_all add: inv_onMessage inv_task_settles)
qed

lemma inv_initial: "lifecycleQueues m = [] \<Longrightarrow> lifecycle_trace m = [] \<Longrightarrow> lifecycle_inv k m"
  by (simp add: lifecycle_inv_def queue_state_def enqueued_tasks_def began_tasks_def map_filter_def)

lemma push_trace:
  "\<exists>rest. lifecycle_trace (lifecycle_push sid t m) = lifecycle_trace m @ Enqueued sid t # rest"
  by (auto simp: lifecycle_push_def fetchLifecycleQueue_def lifecycle_next_def map_of_table_set
      split: option.splits list.splits)

lemma done_trace:
  "map_of (lifecycleQueues m) sid = Some \<lparr>active = Some t, waiting = t' # ts\<rparr> \<Longrightarrow>
     lifecycle_trace (lifecycle_done sid ok m) =
       lifecycle_trace m @ [Ended sid t ok, Began sid t']"
  by (simp add: lifecycle_done_def lifecycle_next_def map_of_table_set)

lemma onMessage_dispatch:
  "explodeUserInfoHeader env message = Some message'
   \<or> (explodeUserInfoHeader env message = None \<and> \<not> WS_STRICT_HEADER_PARSING env
       \<and> message' = message) \<Longrightarrow>
   onMessage errors env message m = dispatch errors message' (m\<lparr>reqs_total := Suc (reqs_total m)\<rparr>)"
  by (auto simp: onMessage_def Let_def)

lemma onMessage_enqueues:
  assumes "explodeUserInfoHeader env message = Some message'
   \<or> (explodeUserInfoHeader env message = None \<and> \<not> WS_STRICT_HEADER_PARSING env
       \<and> message' = message)"
  shows "(msg_id message' = ''start'' \<longrightarrow>
        (\<exists>rest. lifecycle_trace (onMessage errors env message m) =
           lifecycle_trace m @ Enqueued (getSessionId message') (StartTask message') # rest))
    \<and> (msg_id message' = ''subscriberAnswer'' \<longrightarrow>
        (\<exists>rest. lifecycle_trace (onMessage errors env message m) =
           lifecycle_trace m @ Enqueued (getSessionId message') (SubscriberAnswerTask message') # rest))
    \<and> (msg_id message' = ''stop'' \<longrightarrow>
        (\<exists>rest. lifecycle_trace (onMessage errors env message m) =
           lifecycle_trace m @ Enqueued (getSessionId message') (StopTask message') # rest))"
  using push_trace[of "getSessionId message'" _ "m\<lparr>reqs_total := Suc (reqs_total m)\<rparr>"]
  by (simp add: onMessage_dispatch[OF assms] dispatch_def)

text \<open>
  Claim C1. Start the manager with no lifecycle queue and let messages arrive and
  running tasks complete, resolved or rejected, in any order. Then, for every key, no
  task of the key begins while another task of the key runs, and the tasks of the key
  begin in the order in which they were enqueued. \<open>onMessage\<close> enqueues the task of a
  \<open>start\<close>, a \<open>subscriberAnswer\<close> and a \<open>stop\<close> message on the queue of the
  message's session id (for a message whose header was parsed, or was not and strict
  parsing is off). When the running task of a key completes and another waits, the
  oldest waiting task begins right after, whether the completed one resolved or
  rejected.
\<close>

theorem lifecycle_tasks_serialized:
  assumes "lifecycleQueues m0 = []" and "lifecycle_trace m0 = []"
  shows "non_overlapping k (lifecycle_trace (manager_run errors env events m0))
    \<and> began_tasks k (lifecycle_trace (manager_run errors env events m0)) =
        take (length (began_tasks k (lifecycle_trace (manager_run errors env events m0))))
          (enqueued_tasks k (lifecycle_trace (manager_run errors env events m0)))
    \<and> (explodeUserInfoHeader env message = Some message'
        \<or> (explodeUserInfoHeader env message = None \<and> \<not> WS_STRICT_HEADER_PARSING env
            \<and> message' = message) \<longrightarrow>
        (msg_id message' = ''start'' \<longrightarrow>
          (\<exists>rest. lifecycle_trace (onMessage errors env message m) =
             lifecycle_trace m @ Enqueued (getSessionId message') (StartTask message') # rest))
        \<and> (msg_id message' = ''subscriberAnswer'' \<longrightarrow>
          (\<exists>rest. lifecycle_trace (onMessage errors env message m) =
             lifecycle_trace m
               @ Enqueued (getSessionId message') (SubscriberAnswerTask message') # rest))
        \<and> (msg_id message' = ''stop'' \<longrightarrow>
          (\<exists>rest. lifecycle_trace (onMessage errors env message m) =
             lifecycle_trace m @ Enqueued (getSessionId message') (StopTask message') # rest)))
    \<and> (map_of (lifecycleQueues m) sid = Some \<lparr>active = Some t, waiting = t' # ts\<rparr> \<longrightarrow>
        lifecycle_trace (task_settles errors env sid ok m) =
          lifecycle_trace m @ [Ended sid t ok, Began sid t'])"
proof -
  have inv: "lifecycle_inv k (manager_run errors env events m0)"
    using assms by (intro inv_manager_run inv_initial)
  then have a: "non_overlapping k (lifecycle_trace (manager_run errors env events m0))"
    by (simp add: lifecycle_inv_def non_overlapping_def)
  from inv have b: "began_tasks k (lifecycle_trace (manager_run errors env events m0)) =
        take (length (began_tasks k (lifecycle_trace (manager_run errors env events m0))))
          (enqueued_tasks k (lifecycle_trace (manager_run errors env events m0)))"
    by (simp add: lifecycle_inv_def)
  have c: "map_of (lifecycleQueues m) sid = Some \<lparr>active = Some t, waiting = t' # ts\<rparr> \<longrightarrow>
        lifecycle_trace (task_settles errors env sid ok m) =
          lifecycle_trace m @ [Ended sid t ok, Began sid t']"
    using done_trace[of "run_task errors env t m" sid t t' ts ok]
    by (simp add: task_settles_def queues_run_task)
  show ?thesis
    using a b c onMessage_enqueues[of env message message' errors m]
    by blast
qed

theorem lifecycle_tasks_serialized_witness:
  "lifecycle_trace (manager_run errors0 venv_ok
      [Inbound request0, Inbound stop_message, TaskSettles ''u1-c1-share'' False,
       TaskSettles ''u1-c1-share'' True] manager0) =
     [Enqueued ''u1-c1-share'' (StartTask request0), Began ''u1-c1-share'' (StartTask request0),
      Enqueued ''u1-c1-share'' (StopTask stop_message),
      Ended ''u1-c1-share'' (StartTask request0) False,
      Began ''u1-c1-share'' (StopTask stop_message),
      Ended ''u1-c1-share'' (StopTask stop_message) True]
   \<and> non_overlapping ''u1-c1-share'' (lifecycle_trace (manager_run errors0 venv_ok
      [Inbound request0, Inbound stop_message, TaskSettles ''u1-c1-share'' False,
       TaskSettles ''u1-c1-share'' True] manager0))
   \<and> (\<exists>rest. lifecycle_trace (onMessage errors0 venv_ok request0 manager0) =
         Enqueued ''u1-c1-share'' (StartTask request0) # rest)
   \<and> (\<exists>rest. lifecycle_trace (onMessage errors0 venv_ok stop_message manager0) =
         Enqueued ''u1-c1-share'' (StopTask stop_message) # rest)
   \<and> (\<exists>rest. lifecycle_trace (onMessage errors0 venv_ok answer_message manager0) =
         Enqueued ''u1-c1-share'' (SubscriberAnswerTask answer_message) # rest)
   \<and> lifecycle_trace (task_settles errors0 venv_ok ''u1-c1-share'' False manager_queued) =
       lifecycle_trace manager_queued
         @ [Ended ''u1-c1-share'' (StartTask request0) False,
            Began ''u1-c1-share'' (StopTask stop_message)]"
proof -
  note ex = getSessionId_def getCameraId_def venv_ok_def request0_def stop_message_def
    answer_message_def manager0_def
  note run = manager_run_def onMessage_def dispatch_def lifecycle_push_def
    fetchLifecycleQueue_def lifecycle_next_def task_settles_def lifecycle_done_def
    queues_handleStart queues_closeSession handleStop_def table_delete_def Let_def
  have q: "lifecycleQueues manager0 = []" "lifecycle_trace manager0 = []"
    by (simp_all add: manager0_def)
  have t: "lifecycle_trace (manager_run errors0 venv_ok
      [Inbound request0, Inbound stop_message, TaskSettles ''u1-c1-share'' False,
       TaskSettles ''u1-c1-share'' True] manager0) =
     [Enqueued ''u1-c1-share'' (StartTask request0), Began ''u1-c1-share'' (StartTask request0),
      Enqueued ''u1-c1-share'' (StopTask stop_message),
      Ended ''u1-c1-share'' (StartTask request0) False,
      Began ''u1-c1-share'' (StopTask stop_message),
      Ended ''u1-c1-share'' (StopTask stop_message) True]"
    by (simp add: run ex)
  have queued: "map_of (lifecycleQueues manager_queued) ''u1-c1-share'' =
      Some \<lparr>active = Some (StartTask request0), waiting = [StopTask stop_message]\<rparr>"
    by (simp add: manager_queued_def run ex)
  note inst = lifecycle_tasks_serialized[OF q, where k = "''u1-c1-share''" and errors = errors0
      and env = venv_ok
      and events = "[Inbound request0, Inbound stop_message, TaskSettles ''u1-c1-share'' False,
       TaskSettles ''u1-c1-share'' True]"]
  have serial: "non_overlapping ''u1-c1-share'' (lifecycle_trace (manager_run errors0 venv_ok
      [Inbound request0, Inbound stop_message, TaskSettles ''u1-c1-share'' False,
       TaskSettles ''u1-c1-share'' True] manager0))"
    using inst by (rule conjunct1)
  have enq_start: "\<exists>rest. lifecycle_trace (onMessage errors0 venv_ok request0 manager0) =
         Enqueued ''u1-c1-share'' (StartTask request0) # rest"
    using inst[where message = request0 and message' = request0 and m = manager0]
    by (simp add: ex)
  have enq_stop: "\<exists>rest. lifecycle_trace (onMessage errors0 venv_ok stop_message manager0) =
         Enqueued ''u1-c1-share'' (StopTask stop_message) # rest"
    using inst[where message = stop_message and message' = stop_message and m = manager0]
    by (simp add: ex)
  have enq_answer: "\<exists>rest. lifecycle_trace (onMessage errors0 venv_ok answer_message manager0) =
         Enqueued ''u1-c1-share'' (SubscriberAnswerTask answer_message) # rest"
    using inst[where message = answer_message and message' = answer_message and m = manager0]
    by (simp add: ex)
  have settles: "lifecycle_trace (task_settles errors0 venv_ok ''u1-c1-share'' False manager_queued) =
       lifecycle_trace manager_queued
         @ [Ended ''u1-c1-share'' (StartTask request0) False,
            Began ''u1-c1-share'' (StopTask stop_message)]"
    using inst[where m = manager_queued and sid = "''u1-c1-share''" and ok = False
        and t = "StartTask request0" and t' = "StopTask stop_message" and ts = "[]"] queued
    by simp
  from t serial enq_start enq_stop enq_answer settles show ?thesis
    by (intro conjI)
qed

end
